theory Spec2Isabelle
  imports Main "HOL-Library.Word"
begin

section \<open>The model\<close>

subsection \<open>Shared data model\<close>

text \<open>
  Go errors. The sources build errors with \<^verbatim>\<open>errors.New(msg)\<close> and
  \<^verbatim>\<open>errors.Wrap(err, msg)\<close>; an error handed back by a collaborator
  (scanner, encoder, stager, transport) is a value of the same type.
\<close>

datatype error = New string | Wrap error string

type_synonym digest = "8 word list"

text \<open>
  Modelled from the spec: the declarations of \<^verbatim>\<open>sync.Entry\<close>,
  \<^verbatim>\<open>sync.Cache\<close>, \<^verbatim>\<open>sync.Change\<close>, \<^verbatim>\<open>sync.Problem\<close> and
  \<^verbatim>\<open>sync.SymlinkMode\<close> are not among the sources. The endpoint code only
  stores, passes on and compares these values, and reads the \<^verbatim>\<open>Digest\<close>
  field of an entry.
\<close>

datatype EntryKind = EntryKind_Directory | EntryKind_File | EntryKind_Symlink

datatype Entry =
  Entry (Kind: EntryKind) (Executable: bool) (Digest: digest) (Target: string)
        (Contents: "(string \<times> Entry) list")

record CacheEntry =
  Mode :: nat
  ModificationTime :: int
  Size :: nat
  CacheDigest :: digest

type_synonym Cache = "(string \<times> CacheEntry) list"

record Change =
  Path :: string
  Old :: "Entry option"
  New_entry :: "Entry option"

record Problem =
  ProblemPath :: string
  ProblemError :: string

datatype SymlinkMode =
  SymlinkMode_SymlinkDefault | SymlinkMode_SymlinkIgnore
| SymlinkMode_SymlinkPortable | SymlinkMode_SymlinkPOSIXRaw

text \<open>\<^verbatim>\<open>&sync.Cache{}\<close>: the cache with no entries.\<close>

definition empty_Cache :: Cache where
  "empty_Cache = []"

subsection \<open>The local endpoint (pkg/session/endpoint\_local.go)\<close>

text \<open>
  The struct \<^verbatim>\<open>localEndpoint\<close>. The watcher handles and the hasher are static
  and take no part in the operations below; the stager lives in a file that is not among
  the sources and is kept abstract (type \<open>'s\<close>). \<open>scanLock\<close> is \<open>True\<close> while
  the mutex is held.
\<close>

record 's localEndpoint =
  root :: string
  symlinkMode :: SymlinkMode
  ignores :: "string list"
  cachePath :: string
  scanLock :: bool
  cacheWriteError :: "error option"
  cache :: Cache
  ignoreCache :: "(string \<times> bool) list"
  recomposeUnicode :: bool
  stager :: 's

text \<open>What \<^verbatim>\<open>sync.Scan\<close> hands back when it succeeds.\<close>

record ScanResult =
  scan_result :: "Entry option"
  scan_preservesExecutability :: bool
  scan_recomposeUnicode :: bool
  scan_newCache :: Cache
  scan_newIgnoreCache :: "(string \<times> bool) list"

text \<open>The four values returned by \<^verbatim>\<open>scan\<close>: snapshot, preserves
  executability, error, try again.\<close>

type_synonym scanReturn = "Entry option \<times> bool \<times> error option \<times> bool"

text \<open>
  \<^verbatim>\<open>localEndpoint.scan\<close>, the part that runs in the caller's goroutine. The
  outcome of \<^verbatim>\<open>sync.Scan\<close> is an argument. \<open>None\<close> means that
  \<^verbatim>\<open>scanLock.Lock()\<close> blocks. The third component of the result tells whether
  the cache-writing goroutine was started; in that case the lock is still held on return.
\<close>

definition scan ::
  "'s localEndpoint \<Rightarrow> error + ScanResult \<Rightarrow> (scanReturn \<times> 's localEndpoint \<times> bool) option"
where
  "scan e outcome =
    (if scanLock e then None
     else
       let e1 = e\<lparr>scanLock := True\<rparr> in
       (case cacheWriteError e1 of
          Some werr \<Rightarrow>
            Some ((None, False, Some (Wrap werr ''unable to save cache to disk''), False),
                  e1\<lparr>scanLock := False\<rparr>, False)
        | None \<Rightarrow>
            (case outcome of
               Inl err \<Rightarrow> Some ((None, False, Some err, True), e1\<lparr>scanLock := False\<rparr>, False)
             | Inr r \<Rightarrow>
                 Some ((scan_result r, scan_preservesExecutability r, None, False),
                       e1\<lparr>cache := scan_newCache r,
                          ignoreCache := scan_newIgnoreCache r,
                          recomposeUnicode := scan_recomposeUnicode r\<rparr>,
                       True))))"

text \<open>
  The goroutine started by a successful scan. The outcome of
  \<^verbatim>\<open>encoding.MarshalAndSaveProtobuf(e.cachePath, e.cache)\<close> is an argument.
\<close>

definition cacheWriter :: "'s localEndpoint \<Rightarrow> error option \<Rightarrow> 's localEndpoint" where
  "cacheWriter e saveOutcome =
    (case saveOutcome of
       Some err \<Rightarrow> e\<lparr>cacheWriteError := Some err\<rparr>
     | None \<Rightarrow> e)\<lparr>scanLock := False\<rparr>"

text \<open>
  The endpoint together with its pending cache writers and the cache that was last saved
  successfully at \<open>cachePath\<close> (\<open>None\<close>: no save of this process has succeeded).
\<close>

record 's world =
  ep :: "'s localEndpoint"
  writers :: nat
  saved :: "Cache option"

datatype event = CallScan "error + ScanResult" | RunWriter "error option"

text \<open>
  One atomic step: a call of \<^verbatim>\<open>scan\<close> up to its return, or a complete run of a
  pending writer. \<open>None\<close>: the step cannot be taken (the scan blocks on the lock, or
  there is no writer to run).
\<close>

definition step :: "'s world \<Rightarrow> event \<Rightarrow> ('s world \<times> scanReturn list) option" where
  "step w ev =
    (case ev of
       CallScan outcome \<Rightarrow>
         (case scan (ep w) outcome of
            None \<Rightarrow> None
          | Some (r, e', spawned) \<Rightarrow>
              Some (w\<lparr>ep := e', writers := writers w + (if spawned then 1 else 0)\<rparr>, [r]))
     | RunWriter saveOutcome \<Rightarrow>
         (if writers w = 0 then None
          else Some (w\<lparr>ep := cacheWriter (ep w) saveOutcome,
                       writers := writers w - 1,
                       saved := (case saveOutcome of None \<Rightarrow> Some (cache (ep w))
                                 | Some err \<Rightarrow> saved w)\<rparr>, [])))"

fun run :: "'s world \<Rightarrow> event list \<Rightarrow> ('s world \<times> scanReturn list) option" where
  "run w [] = Some (w, [])"
| "run w (ev # evs) =
    (case step w ev of
       None \<Rightarrow> None
     | Some (w1, rs1) \<Rightarrow>
         (case run w1 evs of
            None \<Rightarrow> None
          | Some (w2, rs2) \<Rightarrow> Some (w2, rs1 @ rs2)))"

text \<open>The return of a scan that finds a stored cache-write error.\<close>

definition fatal_return :: "error \<Rightarrow> scanReturn" where
  "fatal_return werr = (None, False, Some (Wrap werr ''unable to save cache to disk''), False)"

subsection \<open>Predicates on the endpoint and its cache writers\<close>

text \<open>
  The lock is held exactly while one writer is pending, and a writer is only pending when
  no cache-write error is stored.
\<close>

definition consistent :: "'s world \<Rightarrow> bool" where
  "consistent w =
    (if scanLock (ep w) then writers w = 1 \<and> cacheWriteError (ep w) = None
     else writers w = 0)"

text \<open>An endpoint as \<^verbatim>\<open>newLocalEndpoint\<close> builds it, before its first scan.\<close>

definition fresh :: "'s world \<Rightarrow> bool" where
  "fresh w = (\<not> scanLock (ep w) \<and> cacheWriteError (ep w) = None \<and> writers w = 0 \<and> saved w = None)"

subsection \<open>Staging (pkg/session/endpoint\_local.go)\<close>

text \<open>
  A Go call either returns or panics (an index out of range, a nil pointer dereference,
  an explicit \<^verbatim>\<open>panic\<close>).
\<close>

datatype 'a outcome = Panic string | Return 'a

text \<open>
  Modelled from the spec: the declaration of \<^verbatim>\<open>rsync.Signature\<close> is not among
  the sources; a signature is a list of (weak rolling sum, strong hash) pairs, one per
  block, and its zero value has no blocks.
\<close>

type_synonym Signature = "(32 word \<times> digest) list"

definition empty_Signature :: Signature where
  "empty_Signature = []"

text \<open>
  What \<^verbatim>\<open>stage\<close> calls outside the sources: the stager's
  \<^verbatim>\<open>Provide\<close>, \<^verbatim>\<open>filepath.Join\<close>, \<^verbatim>\<open>os.Open\<close>,
  \<^verbatim>\<open>engine.Signature\<close> and \<^verbatim>\<open>rsync.NewReceiver\<close>. \<open>'f\<close> is the type
  of open files, \<open>'r\<close> the type of receivers.
\<close>

record ('s, 'f, 'r) stageEnv =
  Provide :: "'s \<Rightarrow> string \<Rightarrow> digest \<Rightarrow> error + string"
  Join :: "string \<Rightarrow> string \<Rightarrow> string"
  Open :: "string \<Rightarrow> error + 'f"
  EngineSignature :: "'f \<Rightarrow> nat \<Rightarrow> error + Signature"
  NewReceiver :: "string \<Rightarrow> string list \<Rightarrow> Signature list \<Rightarrow> 's \<Rightarrow> error + 'r"

text \<open>
  The first loop of \<^verbatim>\<open>stage\<close>: \<^verbatim>\<open>for i, p := range paths\<close>, reading
  \<^verbatim>\<open>entries[i].Digest\<close>. The entries are pointers, \<open>None\<close> is
  \<^verbatim>\<open>nil\<close>. The last argument is \<^verbatim>\<open>unstagedPaths\<close> so far.
\<close>

fun stage_unstagedPaths ::
  "(string \<Rightarrow> digest \<Rightarrow> error + string) \<Rightarrow> string list \<Rightarrow> Entry option list \<Rightarrow> string list
    \<Rightarrow> string list outcome"
where
  "stage_unstagedPaths provide [] entries unstagedPaths = Return unstagedPaths"
| "stage_unstagedPaths provide (p # paths) [] unstagedPaths = Panic ''index out of range''"
| "stage_unstagedPaths provide (p # paths) (None # entries) unstagedPaths =
     Panic ''nil pointer dereference''"
| "stage_unstagedPaths provide (p # paths) (Some entry # entries) unstagedPaths =
     stage_unstagedPaths provide paths entries
       (case provide p (Digest entry) of
          Inl err \<Rightarrow> unstagedPaths @ [p]
        | Inr staged \<Rightarrow> unstagedPaths)"

text \<open>
  The second loop: \<^verbatim>\<open>for i, p := range unstagedPaths\<close>, which stores a signature
  at index \<open>i\<close> or goes on to the next path. \<^verbatim>\<open>stage\<close> runs it from index 0
  on a slice as long as \<^verbatim>\<open>unstagedPaths\<close>, so the index is always in range.
\<close>

fun stage_signatures ::
  "('s, 'f, 'r) stageEnv \<Rightarrow> string \<Rightarrow> string list \<Rightarrow> nat \<Rightarrow> Signature list \<Rightarrow> Signature list"
where
  "stage_signatures env rt [] i signatures = signatures"
| "stage_signatures env rt (p # unstagedPaths) i signatures =
     stage_signatures env rt unstagedPaths (Suc i)
       (case Open env (Join env rt p) of
          Inl err \<Rightarrow> signatures
        | Inr base \<Rightarrow>
            (case EngineSignature env base 0 of
               Inl err \<Rightarrow> signatures
             | Inr signature \<Rightarrow> signatures[i := signature]))"

text \<open>
  \<^verbatim>\<open>localEndpoint.stage\<close>. A \<^verbatim>\<open>nil\<close> slice is the empty list.
\<close>

type_synonym 'r stageReturn = "string list \<times> Signature list \<times> 'r option \<times> error option"

definition stage ::
  "('s, 'f, 'r) stageEnv \<Rightarrow> 's localEndpoint \<Rightarrow> string list \<Rightarrow> Entry option list
    \<Rightarrow> 'r stageReturn outcome"
where
  "stage env e paths entries =
    (case stage_unstagedPaths (Provide env (stager e)) paths entries [] of
       Panic msg \<Rightarrow> Panic msg
     | Return unstagedPaths \<Rightarrow>
         if length unstagedPaths = 0 then Return ([], [], None, None)
         else
           let signatures =
                 stage_signatures env (root e) unstagedPaths 0
                   (replicate (length unstagedPaths) empty_Signature)
           in (case NewReceiver env (root e) unstagedPaths signatures (stager e) of
                 Inl err \<Rightarrow>
                   Return ([], [], None, Some (Wrap err ''unable to create rsync receiver''))
               | Inr receiver \<Rightarrow> Return (unstagedPaths, signatures, Some receiver, None)))"

text \<open>
  The words of the specification, to compare the loops with: the paths, in request order,
  of the pairs that the stager cannot provide, and the signature of the base file at a
  path, empty when the file cannot be opened or its signature cannot be computed.
\<close>

definition not_provided ::
  "('s, 'f, 'r) stageEnv \<Rightarrow> 's \<Rightarrow> (string \<times> digest) list \<Rightarrow> string list" where
  "not_provided env st pairs = map fst (filter (\<lambda>(p, d). isl (Provide env st p d)) pairs)"

definition base_signature :: "('s, 'f, 'r) stageEnv \<Rightarrow> string \<Rightarrow> string \<Rightarrow> Signature" where
  "base_signature env rt p =
    (case Open env (Join env rt p) of
       Inl err \<Rightarrow> empty_Signature
     | Inr base \<Rightarrow>
         (case EngineSignature env base 0 of
            Inl err \<Rightarrow> empty_Signature
          | Inr signature \<Rightarrow> signature))"

subsection \<open>The served endpoint (session/endpoint.go)\<close>

text \<open>
  Modelled from the spec: the request and response records and
  \<^verbatim>\<open>rsync.Operation\<close> are declared outside the sources. A delta is a list of
  COPY and DATA operations.
\<close>

datatype Operation = COPY nat nat | DATA "8 word list"

record scanRequest =
  BaseSnapshotSignature :: Signature

record stageRequest =
  StageTransitions :: "Change list"

record transitionRequest =
  Transitions :: "Change list"

record endpointRequest =
  Scan :: "scanRequest option"
  Stage :: "stageRequest option"
  Transition :: "transitionRequest option"

record scanResponse =
  TryAgain :: bool
  SnapshotDelta :: "Operation list"

record transitionResponse =
  Changes :: "Entry option list"
  Problems :: "Problem list"

datatype response =
  ScanResponse scanResponse | StageResponse | TransitionResponse transitionResponse

text \<open>
  The struct \<^verbatim>\<open>endpoint\<close>. The rsync engine, the hasher and the staging client
  keep no state that the control loop reads; the staging coordinator is abstract.
\<close>

record 's endpoint =
  endpoint_root :: string
  endpoint_ignores :: "string list"
  endpoint_cachePath :: string
  endpoint_cache :: Cache
  stagingCoordinator :: 's

text \<open>
  What one turn of the control loop meets outside the sources: the outcome of
  \<^verbatim>\<open>stream.Decode\<close>, of \<^verbatim>\<open>sync.Scan\<close> (snapshot and new cache), of
  \<^verbatim>\<open>encoding.MarshalAndSaveProtobuf\<close>, of \<^verbatim>\<open>marshalEntry\<close>, the delta
  computed by \<^verbatim>\<open>DeltafyBytes\<close>, the outcome of \<^verbatim>\<open>stagingPathsForChanges\<close>,
  of \<^verbatim>\<open>stagingClient.Stage\<close>, of \<^verbatim>\<open>sync.Transition\<close> and of
  \<^verbatim>\<open>stagingCoordinator.wipe\<close> (the last three with the coordinator they leave
  behind), and the outcome of \<^verbatim>\<open>stream.Encode\<close>.
\<close>

record 's turn =
  decoded :: "error + endpointRequest"
  scanned :: "error + (Entry option \<times> Cache)"
  cacheSaved :: "error option"
  marshalled :: "error + 8 word list"
  deltafied :: "Operation list"
  stagingPaths :: "error + string list"
  staged :: "error option \<times> 's"
  transitioned :: "Entry option list \<times> Problem list \<times> 's"
  wiped :: "error option \<times> 's"
  encoded :: "error option"

text \<open>What the endpoint does to the outside, in the order it does it.\<close>

datatype effect =
  Applied "Change list" | Wiped "error option" | Sent response

definition handleScan ::
  "'s endpoint \<Rightarrow> 's turn \<Rightarrow> scanRequest \<Rightarrow> 's endpoint \<times> (error + scanResponse)" where
  "handleScan e t request =
    (case scanned t of
       Inl err \<Rightarrow> (e, Inr \<lparr>TryAgain = True, SnapshotDelta = []\<rparr>)
     | Inr (snapshot, cache') \<Rightarrow>
         (case cacheSaved t of
            Some err \<Rightarrow> (e, Inl (Wrap err ''unable to save cache''))
          | None \<Rightarrow>
              (case marshalled t of
                 Inl err \<Rightarrow>
                   (e\<lparr>endpoint_cache := cache'\<rparr>, Inl (Wrap err ''unable to marshal snapshot''))
               | Inr snapshotBytes \<Rightarrow>
                   (e\<lparr>endpoint_cache := cache'\<rparr>,
                    Inr \<lparr>TryAgain = False, SnapshotDelta = deltafied t\<rparr>))))"

definition handleStage ::
  "'s endpoint \<Rightarrow> 's turn \<Rightarrow> stageRequest \<Rightarrow> 's endpoint \<times> (error + response)" where
  "handleStage e t request =
    (case stagingPaths t of
       Inl err \<Rightarrow> (e, Inl (Wrap err ''unable to extract staging paths''))
     | Inr paths \<Rightarrow>
         (case staged t of
            (Some err, coordinator) \<Rightarrow>
              (e\<lparr>stagingCoordinator := coordinator\<rparr>, Inl (Wrap err ''unable to stage files''))
          | (None, coordinator) \<Rightarrow> (e\<lparr>stagingCoordinator := coordinator\<rparr>, Inr StageResponse)))"

text \<open>
  \<^verbatim>\<open>handleTransition\<close>: the applier runs, the coordinator is wiped and the value
  of \<^verbatim>\<open>wipe()\<close> is dropped, then the response is returned.
\<close>

definition handleTransition ::
  "'s endpoint \<Rightarrow> 's turn \<Rightarrow> transitionRequest \<Rightarrow> 's endpoint \<times> effect list \<times> transitionResponse"
where
  "handleTransition e t request =
    (case transitioned t of
       (changes, problems, coordinator1) \<Rightarrow>
         (case wiped t of
            (werr, coordinator2) \<Rightarrow>
              (e\<lparr>stagingCoordinator := coordinator2\<rparr>,
               [Applied (Transitions request), Wiped werr],
               \<lparr>Changes = changes, Problems = problems\<rparr>)))"

text \<open>
  \<^verbatim>\<open>serveControl\<close> over the turns that have happened so far. The result is the
  endpoint, the effects in order, and the error the loop returned with; \<open>None\<close> means
  that the loop has not returned: it waits in \<^verbatim>\<open>Decode\<close> for the next request.
\<close>

definition after :: "effect list \<Rightarrow> 's endpoint \<times> effect list \<times> error option
    \<Rightarrow> 's endpoint \<times> effect list \<times> error option" where
  "after fx r = (case r of (e, fx', err) \<Rightarrow> (e, fx @ fx', err))"

fun serveControl :: "'s endpoint \<Rightarrow> 's turn list \<Rightarrow> 's endpoint \<times> effect list \<times> error option"
where
  "serveControl e [] = (e, [], None)"
| "serveControl e (t # ts) =
    (case decoded t of
       Inl err \<Rightarrow> (e, [], Some (Wrap err ''unable to decode request''))
     | Inr request \<Rightarrow>
         (case Scan request of
            Some scanReq \<Rightarrow>
              (case handleScan e t scanReq of
                 (e', Inl err) \<Rightarrow> (e', [], Some (Wrap err ''unable to perform scan''))
               | (e', Inr resp) \<Rightarrow>
                   (case encoded t of
                      Some err \<Rightarrow> (e', [], Some (Wrap err ''unable to send scan response''))
                    | None \<Rightarrow> after [Sent (ScanResponse resp)] (serveControl e' ts)))
          | None \<Rightarrow>
              (case Stage request of
                 Some stageReq \<Rightarrow>
                   (case handleStage e t stageReq of
                      (e', Inl err) \<Rightarrow> (e', [], Some (Wrap err ''unable to perform staging''))
                    | (e', Inr resp) \<Rightarrow>
                        (case encoded t of
                           Some err \<Rightarrow>
                             (e', [], Some (Wrap err ''unable to send stage response''))
                         | None \<Rightarrow> after [Sent resp] (serveControl e' ts)))
               | None \<Rightarrow>
                   (case Transition request of
                      Some transitionReq \<Rightarrow>
                        (case handleTransition e t transitionReq of
                           (e', fx, resp) \<Rightarrow>
                             (case encoded t of
                                Some err \<Rightarrow>
                                  (e', fx, Some (Wrap err ''unable to send transition response''))
                              | None \<Rightarrow>
                                  after (fx @ [Sent (TransitionResponse resp)])
                                    (serveControl e' ts)))
                    | None \<Rightarrow> (e, [], Some (New ''invalid request''))))))"

text \<open>
  \<^verbatim>\<open>localEndpoint.transition\<close>, with the outcome of \<^verbatim>\<open>sync.Transition\<close>
  and of \<^verbatim>\<open>stager.wipe\<close> as arguments (each with the stager it leaves behind).
\<close>

definition transition ::
  "'s localEndpoint \<Rightarrow> Change list \<Rightarrow> Entry option list \<times> Problem list \<times> 's \<Rightarrow> error option \<times> 's
    \<Rightarrow> (Entry option list \<times> Problem list \<times> error option) \<times> 's localEndpoint"
where
  "transition e transitions applied wipeOutcome =
    (case applied of
       (results, problems, stager1) \<Rightarrow>
         (case wipeOutcome of
            (werr, stager2) \<Rightarrow> ((results, problems, None), e\<lparr>stager := stager2\<rparr>)))"

text \<open>
  The order the specification gives: the response to a transition is sent, and a wipe
  follows it.
\<close>

fun wipes_after_reply :: "effect list \<Rightarrow> bool" where
  "wipes_after_reply [] = False"
| "wipes_after_reply (Sent (TransitionResponse r) # fx) =
     (list_ex (\<lambda>x. case x of Wiped w \<Rightarrow> True | _ \<Rightarrow> False) fx \<or> wipes_after_reply fx)"
| "wipes_after_reply (x # fx) = wipes_after_reply fx"

subsection \<open>Endpoint initialization (both endpoint files)\<close>

text \<open>
  Modelled from the spec: \<^verbatim>\<open>Version\<close>, \<^verbatim>\<open>Configuration\<close>,
  \<^verbatim>\<open>filesystem.WatchMode\<close>, \<^verbatim>\<open>sync.IgnoreVCSMode\<close> and
  \<^verbatim>\<open>initializeRequest\<close> are declared outside the sources.
\<close>

type_synonym Version = nat

datatype WatchMode = WatchMode_WatchDefault | WatchMode_WatchPortable | WatchMode_WatchForcePoll

datatype IgnoreVCSMode =
  IgnoreVCSMode_IgnoreVCSDefault | IgnoreVCSMode_IgnoreVCS | IgnoreVCSMode_PropagateVCS

record Configuration =
  cfg_SymlinkMode :: SymlinkMode
  cfg_WatchMode :: WatchMode
  cfg_WatchPollingInterval :: nat
  cfg_IgnoreVCSMode :: IgnoreVCSMode
  cfg_DefaultIgnores :: "string list"
  cfg_Ignores :: "string list"

record initializeRequest =
  Session :: string
  Version :: Version
  Root :: string
  Ignores :: "string list"
  Alpha :: bool

text \<open>
  What initialization calls outside the sources. \<open>LoadAndUnmarshalProtobuf\<close> gives
  the cache read from a path, or an error when the file is absent or cannot be read or
  decoded; \<open>EnsureValid\<close> is \<^verbatim>\<open>Cache.EnsureValid\<close>.
\<close>

record 's initEnv =
  Normalize :: "string \<Rightarrow> error + string"
  DefaultSymlinkMode :: "Version \<Rightarrow> SymlinkMode"
  DefaultWatchMode :: "Version \<Rightarrow> WatchMode"
  DefaultIgnoreVCSMode :: "Version \<Rightarrow> IgnoreVCSMode"
  DefaultVCSIgnores :: "string list"
  pathForCache :: "string \<Rightarrow> bool \<Rightarrow> error + string"
  LoadAndUnmarshalProtobuf :: "string \<Rightarrow> error + Cache"
  EnsureValid :: "Cache \<Rightarrow> error option"
  newStager :: "string \<Rightarrow> Version \<Rightarrow> bool \<Rightarrow> error + 's"
  supported :: "Version \<Rightarrow> bool"
  newStagingCoordinator :: "string \<Rightarrow> Version \<Rightarrow> bool \<Rightarrow> error + 's"

text \<open>The arguments of the \<^verbatim>\<open>filesystem.Watch\<close> goroutine that is started.\<close>

record watch =
  watch_root :: string
  watch_mode :: WatchMode
  watch_interval :: nat

text \<open>
  \<^verbatim>\<open>newLocalEndpoint\<close>. On the two error returns after the watcher was started
  the source cancels it; an error result stands for that too.
\<close>

definition newLocalEndpoint ::
  "'s initEnv \<Rightarrow> string \<Rightarrow> Version \<Rightarrow> string \<Rightarrow> Configuration \<Rightarrow> bool
    \<Rightarrow> error + ('s localEndpoint \<times> watch)"
where
  "newLocalEndpoint env session version root0 configuration alpha =
    (case Normalize env root0 of
       Inl err \<Rightarrow> Inl (Wrap err ''unable to normalize root path'')
     | Inr rt \<Rightarrow>
         let symlinkMode0 =
               (if cfg_SymlinkMode configuration = SymlinkMode_SymlinkDefault
                then DefaultSymlinkMode env version else cfg_SymlinkMode configuration);
             watchMode =
               (if cfg_WatchMode configuration = WatchMode_WatchDefault
                then DefaultWatchMode env version else cfg_WatchMode configuration);
             ignoreVCSMode =
               (if cfg_IgnoreVCSMode configuration = IgnoreVCSMode_IgnoreVCSDefault
                then DefaultIgnoreVCSMode env version else cfg_IgnoreVCSMode configuration);
             ignores0 =
               (if ignoreVCSMode = IgnoreVCSMode_IgnoreVCS then DefaultVCSIgnores env else [])
                 @ cfg_DefaultIgnores configuration @ cfg_Ignores configuration;
             watcher = \<lparr>watch_root = rt, watch_mode = watchMode,
                        watch_interval = cfg_WatchPollingInterval configuration\<rparr>
         in
         (case pathForCache env session alpha of
            Inl err \<Rightarrow> Inl (Wrap err ''unable to compute/create cache path'')
          | Inr cachePath0 \<Rightarrow>
              let cache0 =
                    (case LoadAndUnmarshalProtobuf env cachePath0 of
                       Inl err \<Rightarrow> empty_Cache
                     | Inr loaded \<Rightarrow>
                         (case EnsureValid env loaded of
                            Some err \<Rightarrow> empty_Cache
                          | None \<Rightarrow> loaded))
              in
              (case newStager env session version alpha of
                 Inl err \<Rightarrow> Inl (Wrap err ''unable to create staging coordinator'')
               | Inr stager0 \<Rightarrow>
                   Inr (\<lparr>root = rt, symlinkMode = symlinkMode0, ignores = ignores0,
                         cachePath = cachePath0, scanLock = False, cacheWriteError = None,
                         cache = cache0, ignoreCache = [], recomposeUnicode = False,
                         stager = stager0\<rparr>, watcher))))"

text \<open>
  \<^verbatim>\<open>ServeEndpoint\<close> up to the point where the endpoint is built and the four
  serving goroutines are started. The outcome of decoding the initialization request and
  of encoding the response are arguments.
\<close>

definition ServeEndpoint_initialize ::
  "'s initEnv \<Rightarrow> error + initializeRequest \<Rightarrow> error option \<Rightarrow> error + 's endpoint"
where
  "ServeEndpoint_initialize env decodedInit encodedResponse =
    (case decodedInit of
       Inl err \<Rightarrow> Inl (Wrap err ''unable to receive initialization request'')
     | Inr init \<Rightarrow>
         if Session init = [] then Inl (New ''empty session identifier'')
         else if \<not> supported env (Version init) then Inl (New ''unsupported session version'')
         else if Root init = [] then Inl (New ''empty root path'')
         else
           (case Normalize env (Root init) of
              Inl err \<Rightarrow> Inl (Wrap err ''unable to normalize root path'')
            | Inr rt \<Rightarrow>
                (case pathForCache env (Session init) (Alpha init) of
                   Inl err \<Rightarrow> Inl (Wrap err ''unable to compute/create cache path'')
                 | Inr cachePath0 \<Rightarrow>
                     let cache0 =
                           (case LoadAndUnmarshalProtobuf env cachePath0 of
                              Inl err \<Rightarrow> empty_Cache
                            | Inr loaded \<Rightarrow> loaded)
                     in
                     (case newStagingCoordinator env (Session init) (Version init)
                             (Alpha init) of
                        Inl err \<Rightarrow> Inl (Wrap err ''unable to create staging coordinator'')
                      | Inr coordinator \<Rightarrow>
                          (case encodedResponse of
                             Some err \<Rightarrow>
                               Inl (Wrap err ''unable to send initialization response'')
                           | None \<Rightarrow>
                               Inr \<lparr>endpoint_root = rt, endpoint_ignores = Ignores init,
                                    endpoint_cachePath = cachePath0, endpoint_cache = cache0,
                                    stagingCoordinator = coordinator\<rparr>)))))"

text \<open>
  The words of the specification: the cache an endpoint starts with, given what loading
  and validating found.
\<close>

definition initial_cache :: "error + Cache \<Rightarrow> (Cache \<Rightarrow> error option) \<Rightarrow> Cache" where
  "initial_cache loaded validate =
    (case loaded of
       Inl err \<Rightarrow> empty_Cache
     | Inr c \<Rightarrow> if validate c = None then c else empty_Cache)"

text \<open>
  Modelled from the spec: \<^verbatim>\<open>Cache.EnsureValid\<close> is not among the sources. A cache
  is valid iff no key is empty and every digest has the width of the session's hash.
\<close>

definition Cache_EnsureValid :: "nat \<Rightarrow> Cache \<Rightarrow> error option" where
  "Cache_EnsureValid width c =
    (if list_all (\<lambda>(path, entry). path \<noteq> [] \<and> length (CacheDigest entry) = width) c
     then None else Some (New ''invalid cache entry''))"

definition with_cache_file ::
  "'s initEnv \<Rightarrow> (string \<Rightarrow> error + Cache) \<Rightarrow> (Cache \<Rightarrow> error option) \<Rightarrow> 's initEnv" where
  "with_cache_file env load validate =
    env\<lparr>LoadAndUnmarshalProtobuf := load, EnsureValid := validate\<rparr>"

subsection \<open>The Docker protocol handler (pkg/synchronization/protocols/docker/protocol.go)\<close>

text \<open>
  Modelled from the spec: the package \<^verbatim>\<open>url\<close> with \<^verbatim>\<open>URL\<close>,
  \<^verbatim>\<open>Kind\<close> and \<^verbatim>\<open>Protocol\<close>, and \<^verbatim>\<open>agent.ModeEndpoint\<close>, are
  declared outside the sources; the handler names \<^verbatim>\<open>Kind_Synchronization\<close>,
  \<^verbatim>\<open>Protocol_Docker\<close> and the fields it reads.
\<close>

datatype URLKind = Kind_Synchronization | Kind_Forwarding

datatype Protocol = Protocol_Local | Protocol_SSH | Protocol_Docker

datatype AgentMode = ModeInstall | ModeEndpoint

record URL =
  URL_Kind :: URLKind
  URL_Protocol :: Protocol
  User :: string
  Host :: string
  URL_Path :: string
  Environment :: "(string \<times> string) list"

text \<open>
  What \<^verbatim>\<open>Connect\<close> calls outside the sources: \<^verbatim>\<open>docker.NewTransport\<close>,
  \<^verbatim>\<open>agent.Dial\<close> and \<^verbatim>\<open>remote.NewEndpointClient\<close>. \<open>'t\<close> is the type of
  transports, \<open>'c\<close> of connections, \<open>'p\<close> of endpoint clients.
\<close>

record ('t, 'c, 'p) dockerEnv =
  NewTransport :: "string \<Rightarrow> string \<Rightarrow> (string \<times> string) list \<Rightarrow> string \<Rightarrow> error + 't"
  Dial :: "'t \<Rightarrow> AgentMode \<Rightarrow> string \<Rightarrow> error + 'c"
  NewEndpointClient ::
    "'c \<Rightarrow> string \<Rightarrow> string \<Rightarrow> Version \<Rightarrow> Configuration \<Rightarrow> bool \<Rightarrow> error + 'p"

text \<open>
  \<^verbatim>\<open>protocolHandler.Connect\<close>. The URL comes as a pointer; \<open>None\<close> is
  \<^verbatim>\<open>nil\<close>, on which reading \<^verbatim>\<open>url.Kind\<close> panics.
\<close>

definition Connect ::
  "('t, 'c, 'p) dockerEnv \<Rightarrow> URL option \<Rightarrow> string \<Rightarrow> string \<Rightarrow> Version \<Rightarrow> Configuration
    \<Rightarrow> bool \<Rightarrow> (error + 'p) outcome"
where
  "Connect env urlPointer prompter session version configuration alpha =
    (case urlPointer of
       None \<Rightarrow> Panic ''nil pointer dereference''
     | Some url \<Rightarrow>
         if URL_Kind url \<noteq> Kind_Synchronization
         then Panic ''non-synchronization URL dispatched to synchronization protocol handler''
         else if URL_Protocol url \<noteq> Protocol_Docker
         then Panic ''non-Docker URL dispatched to Docker protocol handler''
         else
           (case NewTransport env (Host url) (User url) (Environment url) prompter of
              Inl err \<Rightarrow> Return (Inl (Wrap err ''unable to create Docker transport''))
            | Inr transport \<Rightarrow>
                (case Dial env transport ModeEndpoint prompter of
                   Inl err \<Rightarrow> Return (Inl (Wrap err ''unable to dial agent endpoint''))
                 | Inr connection \<Rightarrow>
                     Return (NewEndpointClient env connection (URL_Path url) session version
                               configuration alpha))))"

text \<open>
  The words of the claim: a wrapped error is one built by \<^verbatim>\<open>errors.Wrap\<close>.
\<close>

fun wrapped :: "error \<Rightarrow> bool" where
  "wrapped (Wrap err msg) = True"
| "wrapped (New msg) = False"

text \<open>
  The global \<^verbatim>\<open>synchronization.ProtocolHandlers\<close>: a map from protocols to
  handlers, a handler being its \<^verbatim>\<open>Connect\<close>. The package's \<^verbatim>\<open>init\<close> runs
  when the package is loaded and stores the Docker handler in it.
\<close>

type_synonym 'p ProtocolHandler =
  "URL option \<Rightarrow> string \<Rightarrow> string \<Rightarrow> Version \<Rightarrow> Configuration \<Rightarrow> bool \<Rightarrow> (error + 'p) outcome"

definition init ::
  "('t, 'c, 'p) dockerEnv \<Rightarrow> (Protocol \<rightharpoonup> 'p ProtocolHandler) \<Rightarrow> (Protocol \<rightharpoonup> 'p ProtocolHandler)"
where
  "init env ProtocolHandlers = ProtocolHandlers(Protocol_Docker \<mapsto> Connect env)"

section \<open>Concrete inputs\<close>

text \<open>Small inputs on which the operations above are run.\<close>

definition ex_endpoint :: "unit localEndpoint" where
  "ex_endpoint =
    \<lparr>root = ''/home/user/project'', symlinkMode = SymlinkMode_SymlinkPortable,
     ignores = [''*.o''], cachePath = ''/home/user/.mutagen/caches/s1_alpha'',
     scanLock = False, cacheWriteError = None, cache = empty_Cache, ignoreCache = [],
     recomposeUnicode = False, stager = ()\<rparr>"

definition ex_fresh_world :: "unit world" where
  "ex_fresh_world = \<lparr>ep = ex_endpoint, writers = 0, saved = None\<rparr>"

definition ex_snapshot :: Entry where
  "ex_snapshot =
    Entry EntryKind_Directory False [] []
      [(''hello.txt'', Entry EntryKind_File False [0x54, 0xfb] [] [])]"

definition ex_cache :: Cache where
  "ex_cache = [(''hello.txt'', \<lparr>Mode = 420, ModificationTime = 1500000000, Size = 3,
                                 CacheDigest = [0x54, 0xfb]\<rparr>)]"

definition ex_scan :: ScanResult where
  "ex_scan =
    \<lparr>scan_result = Some ex_snapshot, scan_preservesExecutability = True,
     scan_recomposeUnicode = False, scan_newCache = ex_cache,
     scan_newIgnoreCache = [(''hello.txt'', False)]\<rparr>"

text \<open>The world right after a first successful scan: lock held, writer pending.\<close>

definition ex_scanned_world :: "unit world" where
  "ex_scanned_world =
    \<lparr>ep = ex_endpoint\<lparr>scanLock := True, cache := ex_cache,
                        ignoreCache := [(''hello.txt'', False)]\<rparr>,
     writers = 1, saved = None\<rparr>"

definition ex_failed_world :: "unit world" where
  "ex_failed_world =
    \<lparr>ep = ex_endpoint\<lparr>cacheWriteError := Some (New ''read-only file system''),
                        cache := ex_cache, ignoreCache := [(''hello.txt'', False)]\<rparr>,
     writers = 0, saved = None\<rparr>"

definition ex_saved_world :: "unit world" where
  "ex_saved_world =
    \<lparr>ep = ex_endpoint\<lparr>cache := ex_cache, ignoreCache := [(''hello.txt'', False)]\<rparr>,
     writers = 0, saved = Some ex_cache\<rparr>"

definition ex_stageEnv :: "(unit, string, nat) stageEnv" where
  "ex_stageEnv =
    \<lparr>Provide = (\<lambda>st p d. if p = ''a.txt'' \<and> d = [1] then Inr ''/staging/01/01''
                          else Inl (New ''file not staged'')),
     Join = (\<lambda>rt p. rt @ ''/'' @ p),
     Open = (\<lambda>name. if name = ''/home/user/project/b.txt'' then Inr ''old content of b''
                     else Inl (New ''no such file or directory'')),
     EngineSignature = (\<lambda>base blockSize. Inr [(7, [9])]),
     NewReceiver = (\<lambda>rt ps sigs st. Inr (length ps))\<rparr>"

definition ex_paths :: "string list" where
  "ex_paths = [''a.txt'', ''b.txt'', ''c.txt'']"

definition ex_entries :: "Entry list" where
  "ex_entries =
    [Entry EntryKind_File False [1] [] [], Entry EntryKind_File False [2] [] [],
     Entry EntryKind_File True [3] [] []]"

definition ex_served :: "unit endpoint" where
  "ex_served =
    \<lparr>endpoint_root = ''/home/user/project'', endpoint_ignores = [''*.o''],
     endpoint_cachePath = ''/home/user/.mutagen/caches/s1_beta'', endpoint_cache = empty_Cache,
     stagingCoordinator = ()\<rparr>"

definition ex_scan_fails_turn :: "unit turn" where
  "ex_scan_fails_turn =
    \<lparr>decoded = Inr \<lparr>Scan = Some \<lparr>BaseSnapshotSignature = empty_Signature\<rparr>, Stage = None,
                     Transition = None\<rparr>,
     scanned = Inl (New ''open hello.txt: input/output error''),
     cacheSaved = None, marshalled = Inr [], deltafied = [], stagingPaths = Inr [],
     staged = (None, ()), transitioned = ([], [], ()), wiped = (None, ()), encoded = None\<rparr>"

definition ex_scan_succeeds_turn :: "unit turn" where
  "ex_scan_succeeds_turn =
    ex_scan_fails_turn\<lparr>scanned := Inr (Some ex_snapshot, ex_cache),
                        marshalled := Inr [10, 2], deltafied := [DATA [10, 2]]\<rparr>"

definition ex_marshal_fails_turn :: "unit turn" where
  "ex_marshal_fails_turn =
    ex_scan_succeeds_turn\<lparr>marshalled := Inl (New ''string field contains invalid UTF-8'')\<rparr>"

definition ex_changes :: "Change list" where
  "ex_changes =
    [\<lparr>Path = ''a/b.txt'', Old = None, New_entry = Some (Entry EntryKind_File False [2] [] [])\<rparr>,
     \<lparr>Path = ''x'', Old = Some (Entry EntryKind_File False [1] [] []),
      New_entry = Some (Entry EntryKind_File False [3] [] [])\<rparr>]"

definition ex_transition_response :: transitionResponse where
  "ex_transition_response =
    \<lparr>Changes = [Some (Entry EntryKind_File False [2] [] []),
                Some (Entry EntryKind_File False [1] [] [])],
     Problems = [\<lparr>ProblemPath = ''x'', ProblemError = ''unexpected modification''\<rparr>]\<rparr>"

definition ex_transition_turn :: "unit turn" where
  "ex_transition_turn =
    ex_scan_fails_turn
      \<lparr>decoded := Inr \<lparr>Scan = None, Stage = None,
                        Transition = Some \<lparr>Transitions = ex_changes\<rparr>\<rparr>,
       transitioned := (Changes ex_transition_response, Problems ex_transition_response, ()),
       wiped := (Some (New ''unable to remove staging directory''), ())\<rparr>"

definition ex_invalid_cache :: Cache where
  "ex_invalid_cache =
    [([], \<lparr>Mode = 420, ModificationTime = 1500000000, Size = 3, CacheDigest = [0x54, 0xfb]\<rparr>)]"

definition ex_initEnv :: "unit initEnv" where
  "ex_initEnv =
    \<lparr>Normalize = (\<lambda>path. if path = [] then Inl (New ''empty path'') else Inr path),
     DefaultSymlinkMode = (\<lambda>v. SymlinkMode_SymlinkPortable),
     DefaultWatchMode = (\<lambda>v. WatchMode_WatchPortable),
     DefaultIgnoreVCSMode = (\<lambda>v. IgnoreVCSMode_PropagateVCS),
     DefaultVCSIgnores = [''.git/'', ''.svn/''],
     pathForCache = (\<lambda>session alpha.
        Inr (''/home/user/.mutagen/caches/'' @ session @ (if alpha then ''_alpha'' else ''_beta''))),
     LoadAndUnmarshalProtobuf = (\<lambda>path. Inr ex_invalid_cache),
     EnsureValid = Cache_EnsureValid 20,
     newStager = (\<lambda>session v alpha. Inr ()),
     supported = (\<lambda>v. v = 1),
     newStagingCoordinator = (\<lambda>session v alpha. Inr ())\<rparr>"

definition ex_configuration :: Configuration where
  "ex_configuration =
    \<lparr>cfg_SymlinkMode = SymlinkMode_SymlinkDefault, cfg_WatchMode = WatchMode_WatchDefault,
     cfg_WatchPollingInterval = 10, cfg_IgnoreVCSMode = IgnoreVCSMode_IgnoreVCSDefault,
     cfg_DefaultIgnores = [], cfg_Ignores = [''*.o'']\<rparr>"

definition ex_init :: initializeRequest where
  "ex_init =
    \<lparr>Session = ''s1'', Version = 1, Root = ''/home/user/project'', Ignores = [''*.o''],
     Alpha = False\<rparr>"

definition ex_dockerEnv :: "(string, string, string) dockerEnv" where
  "ex_dockerEnv =
    \<lparr>NewTransport = (\<lambda>container user environment prompter.
        if container = [] then Inl (New ''empty container name'')
        else Inr (''docker:'' @ container)),
     Dial = (\<lambda>transport mode prompter. Inr (transport @ ''#agent'')),
     NewEndpointClient = (\<lambda>connection path session v configuration alpha.
        Inr (connection @ '':'' @ path))\<rparr>"

definition ex_failing_client_dockerEnv :: "(string, string, string) dockerEnv" where
  "ex_failing_client_dockerEnv =
    ex_dockerEnv\<lparr>NewEndpointClient := (\<lambda>connection path session v configuration alpha.
        Inl (New ''remote error: unsupported session version''))\<rparr>"

definition ex_other_handler :: "string ProtocolHandler" where
  "ex_other_handler =
    (\<lambda>url prompter session v configuration alpha. Return (Inl (New ''unable to connect'')))"

definition ex_registry :: "Protocol \<rightharpoonup> string ProtocolHandler" where
  "ex_registry = [Protocol_SSH \<mapsto> ex_other_handler, Protocol_Docker \<mapsto> ex_other_handler]"

definition ex_url :: URL where
  "ex_url =
    \<lparr>URL_Kind = Kind_Synchronization, URL_Protocol = Protocol_Docker, User = ''root'',
     Host = ''web'', URL_Path = ''/srv'',
     Environment = [(''DOCKER_HOST'', ''unix:///var/run/docker.sock'')]\<rparr>"

section \<open>Properties\<close>

subsection \<open>Scans after a failed cache write\<close>

lemma scan_with_stored_error:
  "\<not> scanLock e \<Longrightarrow> cacheWriteError e = Some werr \<Longrightarrow>
     scan e outcome = Some (fatal_return werr, e, False)"
  by (simp add: scan_def fatal_return_def)

lemma step_scan_with_stored_error:
  "\<not> scanLock (ep w) \<Longrightarrow> cacheWriteError (ep w) = Some werr \<Longrightarrow>
     step w (CallScan outcome) = Some (w, [fatal_return werr])"
  by (simp add: step_def scan_with_stored_error)

lemma run_scans_with_stored_error:
  "\<not> scanLock (ep w) \<Longrightarrow> cacheWriteError (ep w) = Some werr \<Longrightarrow>
     run w (map CallScan outcomes) = Some (w, map (\<lambda>_. fatal_return werr) outcomes)"
  by (induction outcomes) (simp_all add: step_scan_with_stored_error)

lemma step_failed_writer:
  "writers w = Suc 0 \<Longrightarrow>
     step w (RunWriter (Some werr)) =
       Some (w\<lparr>ep := (ep w)\<lparr>cacheWriteError := Some werr, scanLock := False\<rparr>, writers := 0\<rparr>, [])"
  by (simp add: step_def cacheWriter_def)

text \<open>
  C1. Let the writer of a previous scan be pending, and let its save fail with
  \<open>werr\<close>. The writer stores \<open>werr\<close> and releases the lock. From then on every
  call of \<^verbatim>\<open>scan\<close>, whatever the scanner would find, returns: no snapshot, an
  error wrapping \<open>werr\<close> with the message "unable to save cache to disk", and try-again
  false. The endpoint (its cache, ignore cache, recompose-Unicode flag and stored error)
  is the same after any number of such calls, and no writer is started again.
\<close>

theorem cache_write_error_is_sticky:
  assumes "writers w = 1"
    and "step w (RunWriter (Some werr)) = Some (w', rs)"
  shows "rs = []
    \<and> cacheWriteError (ep w') = Some werr
    \<and> cache (ep w') = cache (ep w)
    \<and> ignoreCache (ep w') = ignoreCache (ep w)
    \<and> recomposeUnicode (ep w') = recomposeUnicode (ep w)
    \<and> run w' (map CallScan outcomes) =
        Some (w', map (\<lambda>_. (None, False, Some (Wrap werr ''unable to save cache to disk''), False))
                    outcomes)
    \<and> step w' (RunWriter saveOutcome) = None"
proof -
  from assms have w': "w' = w\<lparr>ep := (ep w)\<lparr>cacheWriteError := Some werr, scanLock := False\<rparr>,
      writers := 0\<rparr>" and rs: "rs = []"
    by (simp_all add: step_failed_writer)
  have unlocked: "\<not> scanLock (ep w')" and stored: "cacheWriteError (ep w') = Some werr"
    by (simp_all add: w')
  have "run w' (map CallScan outcomes) = Some (w', map (\<lambda>_. fatal_return werr) outcomes)"
    by (rule run_scans_with_stored_error [OF unlocked stored])
  moreover have "step w' (RunWriter saveOutcome) = None"
    by (simp add: step_def w')
  ultimately show ?thesis
    using rs stored by (simp add: w' fatal_return_def)
qed

lemma ex_first_scan:
  "step ex_fresh_world (CallScan (Inr ex_scan)) =
     Some (ex_scanned_world, [(Some ex_snapshot, True, None, False)])"
  by (simp add: step_def scan_def ex_fresh_world_def ex_scanned_world_def ex_endpoint_def
      ex_scan_def)

lemma ex_failed_write:
  "step ex_scanned_world (RunWriter (Some (New ''read-only file system''))) =
     Some (ex_failed_world, [])"
  by (simp add: step_def cacheWriter_def ex_scanned_world_def ex_failed_world_def
      ex_endpoint_def)

theorem cache_write_error_is_sticky_witness:
  "writers ex_scanned_world = 1
   \<and> step ex_scanned_world (RunWriter (Some (New ''read-only file system''))) =
       Some (ex_failed_world, [])
   \<and> cache (ep ex_failed_world) = ex_cache
   \<and> run ex_failed_world [CallScan (Inl (New ''open failed'')), CallScan (Inr ex_scan)] =
       Some (ex_failed_world,
         [(None, False,
           Some (Wrap (New ''read-only file system'') ''unable to save cache to disk''), False),
          (None, False,
           Some (Wrap (New ''read-only file system'') ''unable to save cache to disk''), False)])"
proof -
  have w: "writers ex_scanned_world = 1"
    by (simp add: ex_scanned_world_def)
  have c: "cache (ep ex_scanned_world) = ex_cache"
    by (simp add: ex_scanned_world_def)
  from cache_write_error_is_sticky [OF w ex_failed_write,
      of "[Inl (New ''open failed''), Inr ex_scan]"]
  show ?thesis using w c ex_failed_write by simp
qed

subsection \<open>The scan lock and the background cache write\<close>

lemma run_Cons_Some:
  assumes "run w (ev # evs) = Some (w', rs)"
  obtains w1 rs1 rs2 where "step w ev = Some (w1, rs1)" and "run w1 evs = Some (w', rs2)"
    and "rs = rs1 @ rs2"
  using assms by (auto split: option.splits)

lemma run_invariant:
  assumes pres: "\<And>w ev w' rs. P w \<Longrightarrow> step w ev = Some (w', rs) \<Longrightarrow> P w'"
    and "P w" and "run w evs = Some (w', rs)"
  shows "P w'"
  using assms(2,3)
proof (induction evs arbitrary: w rs)
  case Nil
  then show ?case by simp
next
  case (Cons ev evs)
  from Cons.prems(2) obtain w1 rs1 rs2 where
    s: "step w ev = Some (w1, rs1)" and r: "run w1 evs = Some (w', rs2)"
    by (rule run_Cons_Some)
  from pres [OF Cons.prems(1) s] have "P w1" .
  then show ?case using r by (rule Cons.IH)
qed

lemma step_consistent:
  "consistent w \<Longrightarrow> step w ev = Some (w', rs) \<Longrightarrow> consistent w'"
  by (cases ev)
    (auto simp: step_def scan_def cacheWriter_def consistent_def Let_def
      split: if_splits option.splits sum.splits)

lemma run_consistent:
  "consistent w \<Longrightarrow> run w evs = Some (w', rs) \<Longrightarrow> consistent w'"
  by (rule run_invariant [where P = consistent]) (auto dest: step_consistent)

lemma step_error_stays:
  "cacheWriteError (ep w) \<noteq> None \<Longrightarrow> step w ev = Some (w', rs) \<Longrightarrow>
     cacheWriteError (ep w') \<noteq> None"
  by (cases ev)
    (auto simp: step_def scan_def cacheWriter_def Let_def
      split: if_splits option.splits sum.splits)

lemma run_error_stays:
  "cacheWriteError (ep w) \<noteq> None \<Longrightarrow> run w evs = Some (w', rs) \<Longrightarrow>
     cacheWriteError (ep w') \<noteq> None"
  by (rule run_invariant [where P = "\<lambda>w. cacheWriteError (ep w) \<noteq> None",
        OF step_error_stays])

lemma step_writer_failed:
  "step w (RunWriter (Some err)) = Some (w', rs) \<Longrightarrow> cacheWriteError (ep w') \<noteq> None"
  by (auto simp: step_def cacheWriter_def split: if_splits)

lemma run_no_failed_writer:
  "run w evs = Some (w', rs) \<Longrightarrow> cacheWriteError (ep w') = None \<Longrightarrow>
     RunWriter (Some err) \<notin> set evs"
proof (induction evs arbitrary: w rs)
  case Nil
  then show ?case by simp
next
  case (Cons ev evs)
  from Cons.prems(1) obtain w1 rs1 rs2 where
    s: "step w ev = Some (w1, rs1)" and r: "run w1 evs = Some (w', rs2)"
    by (rule run_Cons_Some)
  have "ev \<noteq> RunWriter (Some err)"
  proof
    assume "ev = RunWriter (Some err)"
    with s have "cacheWriteError (ep w1) \<noteq> None" by (auto dest: step_writer_failed)
    then have "cacheWriteError (ep w') \<noteq> None" using r by (rule run_error_stays)
    with Cons.prems show False by simp
  qed
  moreover from Cons.IH [OF r Cons.prems(2)] have "RunWriter (Some err) \<notin> set evs" .
  ultimately show ?case by simp
qed

lemma successful_scan_step:
  assumes "step w (CallScan outcome) = Some (w1, [(snapshot, pe, None, tryAgain)])"
  shows "\<exists>r. outcome = Inr r \<and> \<not> scanLock (ep w) \<and> cacheWriteError (ep w) = None
    \<and> w1 = w\<lparr>ep := (ep w)\<lparr>scanLock := True, cache := scan_newCache r,
                  ignoreCache := scan_newIgnoreCache r,
                  recomposeUnicode := scan_recomposeUnicode r\<rparr>,
             writers := writers w + 1\<rparr>"
  using assms
  by (auto simp: step_def scan_def Let_def split: if_splits option.splits sum.splits)

lemma step_scan_cases:
  assumes "step w (CallScan outcome) = Some (w1, rs)"
  shows "\<not> scanLock (ep w) \<and>
    (w1 = w \<or> (scanLock (ep w1) \<and> cacheWriteError (ep w) = None))"
  using assms
  by (auto simp: step_def scan_def Let_def split: if_splits option.splits sum.splits)

lemma step_writer_saved:
  assumes "step w (RunWriter None) = Some (w1, rs)"
  shows "saved w1 = Some (cache (ep w1))"
  using assms by (auto simp: step_def cacheWriter_def split: if_splits)

lemma run_saved_cache:
  assumes "consistent w" and "run w evs = Some (w', rs)"
    and "\<not> scanLock (ep w')" and "cacheWriteError (ep w') = None"
  shows "if RunWriter None \<in> set evs then saved w' = Some (cache (ep w'))
         else \<not> scanLock (ep w) \<and> saved w' = saved w \<and> cache (ep w') = cache (ep w)"
  using assms(1,2)
proof (induction evs arbitrary: w rs)
  case Nil
  then show ?case using assms(3) by simp
next
  case (Cons ev evs)
  from Cons.prems(2) obtain w1 rs1 rs2 where
    s: "step w ev = Some (w1, rs1)" and r: "run w1 evs = Some (w', rs2)"
    by (rule run_Cons_Some)
  from Cons.prems(1) s have c1: "consistent w1" by (rule step_consistent)
  note IH = Cons.IH [OF c1 r]
  show ?case
  proof (cases "RunWriter None \<in> set evs")
    case True
    with IH show ?thesis by simp
  next
    case False
    with IH have u1: "\<not> scanLock (ep w1)" and sv: "saved w' = saved w1"
      and ca: "cache (ep w') = cache (ep w1)"
      by simp_all
    show ?thesis
    proof (cases ev)
      case (CallScan outcome)
      with s u1 step_scan_cases [of w outcome w1 rs1]
      have "\<not> scanLock (ep w)" and "w1 = w" by auto
      with False CallScan sv ca show ?thesis by simp
    next
      case (RunWriter saveOutcome)
      show ?thesis
      proof (cases saveOutcome)
        case None
        with s RunWriter have "saved w1 = Some (cache (ep w1))"
          by (auto dest: step_writer_saved)
        with sv ca None RunWriter show ?thesis by simp
      next
        case (Some err)
        with s RunWriter have "cacheWriteError (ep w1) \<noteq> None"
          by (auto dest: step_writer_failed)
        then have "cacheWriteError (ep w') \<noteq> None" using r by (rule run_error_stays)
        with assms(4) show ?thesis by simp
      qed
    qed
  qed
qed

text \<open>
  C5 (as amended). Start from a fresh endpoint (lock free, no stored error, no writer, no
  save of this process yet) and let any sequence of scans and writer runs happen. If a
  scan then returns without error: no earlier cache write had failed; if a cache write
  has completed, the cache the endpoint held before this scan is the one last saved, and
  otherwise nothing has been saved and the endpoint still held the cache it started with;
  the new cache is not saved yet when the scan returns; the lock is held and exactly one
  writer is pending; a further scan cannot start, so it neither changes nor reads the
  scan fields; and the writer, when it runs, leaves the scan fields alone, records the
  outcome of the save, which may be a failure, and releases the lock.
\<close>

theorem scan_lock_held_until_cache_written:
  assumes "fresh w0"
    and "run w0 evs = Some (w, rs)"
    and "step w (CallScan outcome) = Some (w1, [(snapshot, pe, None, tryAgain)])"
  shows "RunWriter (Some err) \<notin> set evs
    \<and> (if RunWriter None \<in> set evs then saved w = Some (cache (ep w))
        else saved w = None \<and> cache (ep w) = cache (ep w0))
    \<and> saved w1 = saved w
    \<and> scanLock (ep w1) \<and> writers w1 = 1
    \<and> step w1 (CallScan outcome') = None
    \<and> step w1 (RunWriter saveOutcome) =
        Some (w1\<lparr>ep := (ep w1)\<lparr>cacheWriteError := saveOutcome, scanLock := False\<rparr>,
                writers := 0,
                saved := (case saveOutcome of None \<Rightarrow> Some (cache (ep w1))
                          | Some e \<Rightarrow> saved w)\<rparr>, [])"
proof -
  from assms(1) have c0: "consistent w0" and s0: "saved w0 = None"
    by (simp_all add: fresh_def consistent_def)
  from c0 assms(2) have c: "consistent w" by (rule run_consistent)
  from successful_scan_step [OF assms(3)] obtain r where
    o: "outcome = Inr r" and l: "\<not> scanLock (ep w)" and e: "cacheWriteError (ep w) = None"
    and w1: "w1 = w\<lparr>ep := (ep w)\<lparr>scanLock := True, cache := scan_newCache r,
                  ignoreCache := scan_newIgnoreCache r,
                  recomposeUnicode := scan_recomposeUnicode r\<rparr>,
             writers := writers w + 1\<rparr>"
    by blast
  from c l have wr: "writers w = 0" by (simp add: consistent_def)
  have 1: "RunWriter (Some err) \<notin> set evs"
    using assms(2) e by (rule run_no_failed_writer)
  have 2: "if RunWriter None \<in> set evs then saved w = Some (cache (ep w))
        else saved w = None \<and> cache (ep w) = cache (ep w0)"
    using run_saved_cache [OF c0 assms(2) l e] s0 by (simp split: if_splits)
  have 3: "step w1 (CallScan outcome') = None"
    by (simp add: step_def scan_def w1)
  have 4: "step w1 (RunWriter saveOutcome) =
        Some (w1\<lparr>ep := (ep w1)\<lparr>cacheWriteError := saveOutcome, scanLock := False\<rparr>,
                writers := 0,
                saved := (case saveOutcome of None \<Rightarrow> Some (cache (ep w1))
                          | Some e \<Rightarrow> saved w)\<rparr>, [])"
    using e wr by (cases saveOutcome) (simp_all add: step_def cacheWriter_def w1)
  have 5: "saved w1 = saved w" and 6: "scanLock (ep w1)" and 7: "writers w1 = 1"
    using wr by (simp_all add: w1)
  show ?thesis using 1 2 3 4 5 6 7 by blast
qed

lemma ex_first_scan_saved:
  "run ex_fresh_world [CallScan (Inr ex_scan), RunWriter None] =
     Some (ex_saved_world, [(Some ex_snapshot, True, None, False)])"
  by (simp add: ex_first_scan)
    (simp add: step_def cacheWriter_def ex_scanned_world_def ex_saved_world_def ex_endpoint_def)

lemma ex_second_scan:
  "step ex_saved_world (CallScan (Inr ex_scan)) =
     Some (ex_scanned_world\<lparr>saved := Some ex_cache\<rparr>, [(Some ex_snapshot, True, None, False)])"
  by (simp add: step_def scan_def ex_saved_world_def ex_scanned_world_def ex_endpoint_def
      ex_scan_def)

theorem scan_lock_held_until_cache_written_witness:
  "fresh ex_fresh_world
   \<and> run ex_fresh_world [CallScan (Inr ex_scan), RunWriter None] =
       Some (ex_saved_world, [(Some ex_snapshot, True, None, False)])
   \<and> step ex_saved_world (CallScan (Inr ex_scan)) =
       Some (ex_scanned_world\<lparr>saved := Some ex_cache\<rparr>, [(Some ex_snapshot, True, None, False)])
   \<and> saved ex_saved_world = Some (cache (ep ex_saved_world))
   \<and> step (ex_scanned_world\<lparr>saved := Some ex_cache\<rparr>) (CallScan (Inr ex_scan)) = None"
proof -
  have f: "fresh ex_fresh_world"
    by (simp add: fresh_def ex_fresh_world_def ex_endpoint_def)
  have m: "RunWriter None \<in> set [CallScan (Inr ex_scan), RunWriter None]"
    by simp
  note t = scan_lock_held_until_cache_written [OF f ex_first_scan_saved ex_second_scan,
      of "New ''x''" "Inr ex_scan" None]
  from t m have s: "saved ex_saved_world = Some (cache (ep ex_saved_world))"
    by (simp split: if_splits)
  from t have b: "step (ex_scanned_world\<lparr>saved := Some ex_cache\<rparr>) (CallScan (Inr ex_scan)) = None"
    by blast
  from f s b ex_first_scan_saved ex_second_scan show ?thesis by blast
qed

text \<open>
  C5 as stated fails in its last part: the first scan of a fresh endpoint returns a
  snapshot and no error while nothing has been saved, and when the writer then fails the
  cache of that scan is never saved.
\<close>

theorem successful_scan_without_durable_cache:
  "step ex_fresh_world (CallScan (Inr ex_scan)) =
     Some (ex_scanned_world, [(Some ex_snapshot, True, None, False)])
   \<and> saved ex_scanned_world = None
   \<and> run ex_fresh_world
       [CallScan (Inr ex_scan), RunWriter (Some (New ''read-only file system''))] =
     Some (ex_failed_world, [(Some ex_snapshot, True, None, False)])
   \<and> cache (ep ex_failed_world) = ex_cache
   \<and> saved ex_failed_world = None"
  by (simp add: ex_first_scan ex_failed_write)
    (simp add: ex_scanned_world_def ex_failed_world_def)

subsection \<open>Staging\<close>

lemma stage_unstagedPaths_filter:
  "length entries = length paths \<Longrightarrow>
   stage_unstagedPaths provide paths (map Some entries) acc =
     Return (acc @ map fst (filter (\<lambda>(p, d). isl (provide p d)) (zip paths (map Digest entries))))"
proof (induction paths arbitrary: entries acc)
  case Nil
  then show ?case by simp
next
  case (Cons p paths)
  then obtain en ens where "entries = en # ens" and "length ens = length paths"
    by (cases entries) auto
  with Cons.IH [of ens] show ?case
    by (cases "provide p (Digest en)") simp_all
qed

lemma stage_signatures_length:
  "length (stage_signatures env rt ps i sigs) = length sigs"
  by (induction ps arbitrary: i sigs) (auto split: sum.splits)

lemma stage_signatures_map:
  "stage_signatures env rt ps (length pre) (pre @ replicate (length ps) empty_Signature) =
     pre @ map (base_signature env rt) ps"
proof (induction ps arbitrary: pre)
  case Nil
  then show ?case by simp
next
  case (Cons p ps)
  let ?rest = "replicate (length ps) empty_Signature"
  have upd: "(case Open env (Join env rt p) of
          Inl err \<Rightarrow> pre @ empty_Signature # ?rest
        | Inr base \<Rightarrow>
            (case EngineSignature env base 0 of
               Inl err \<Rightarrow> pre @ empty_Signature # ?rest
             | Inr signature \<Rightarrow> (pre @ empty_Signature # ?rest)[length pre := signature]))
      = (pre @ [base_signature env rt p]) @ ?rest"
    by (simp add: base_signature_def split: sum.splits)
  have "stage_signatures env rt (p # ps) (length pre)
          (pre @ replicate (length (p # ps)) empty_Signature) =
        stage_signatures env rt ps (length (pre @ [base_signature env rt p]))
          ((pre @ [base_signature env rt p]) @ ?rest)"
    using upd by simp
  also have "\<dots> = (pre @ [base_signature env rt p]) @ map (base_signature env rt) ps"
    by (rule Cons.IH)
  finally show ?case by simp
qed

lemma stage_signatures_from_empty:
  "stage_signatures env rt ps 0 (replicate (length ps) empty_Signature) =
     map (base_signature env rt) ps"
  using stage_signatures_map [of env rt ps "[]"] by simp

lemma stage_unfold:
  assumes "length entries = length paths"
    and U_def: "U = not_provided env (stager e) (zip paths (map Digest entries))"
  shows "stage env e paths (map Some entries) =
    (if U = [] then Return ([], [], None, None)
     else
       (case NewReceiver env (root e) U (map (base_signature env (root e)) U) (stager e) of
          Inl err \<Rightarrow> Return ([], [], None, Some (Wrap err ''unable to create rsync receiver''))
        | Inr receiver \<Rightarrow>
            Return (U, map (base_signature env (root e)) U, Some receiver, None)))"
proof -
  have "stage_unstagedPaths (Provide env (stager e)) paths (map Some entries) [] = Return U"
    using stage_unstagedPaths_filter [OF assms(1), of "Provide env (stager e)" "[]"]
    by (simp add: U_def not_provided_def)
  then show ?thesis
    unfolding stage_def Let_def
    by (simp only: outcome.case stage_signatures_from_empty length_0_conv)
qed

text \<open>
  C4. For a request of paths with as many (non-nil) entries, \<^verbatim>\<open>stage\<close> never
  panics, and when it returns without error the paths it returns are exactly the paths,
  in request order, of the (path, digest) pairs for which \<^verbatim>\<open>Provide\<close> fails.
  The only other return is the error of \<^verbatim>\<open>rsync.NewReceiver\<close>, wrapped, with
  no paths; it needs at least one such pair.
\<close>

theorem stage_returns_unprovided_paths:
  assumes "length entries = length paths"
  shows "(\<exists>signatures receiver.
            stage env e paths (map Some entries) =
              Return (not_provided env (stager e) (zip paths (map Digest entries)),
                      signatures, receiver, None))
       \<or> (\<exists>err signatures.
            not_provided env (stager e) (zip paths (map Digest entries)) \<noteq> []
          \<and> NewReceiver env (root e)
                (not_provided env (stager e) (zip paths (map Digest entries)))
                signatures (stager e) = Inl err
          \<and> stage env e paths (map Some entries) =
              Return ([], [], None, Some (Wrap err ''unable to create rsync receiver'')))"
proof -
  let ?U = "not_provided env (stager e) (zip paths (map Digest entries))"
  let ?S = "map (base_signature env (root e)) ?U"
  show ?thesis
  proof (cases "?U = []")
    case True
    then show ?thesis by (simp add: stage_unfold [OF assms refl])
  next
    case False
    show ?thesis
    proof (cases "NewReceiver env (root e) ?U ?S (stager e)")
      case (Inl err)
      with False have "stage env e paths (map Some entries) =
          Return ([], [], None, Some (Wrap err ''unable to create rsync receiver''))"
        by (simp add: stage_unfold [OF assms refl])
      with False Inl show ?thesis by blast
    next
      case (Inr receiver)
      with False have "stage env e paths (map Some entries) = Return (?U, ?S, Some receiver, None)"
        by (simp add: stage_unfold [OF assms refl])
      then show ?thesis by blast
    qed
  qed
qed

text \<open>
  C8. If \<^verbatim>\<open>Provide\<close> succeeds for every requested pair, \<^verbatim>\<open>stage\<close>
  returns no paths, no signatures, no receiver and no error; and it does so whatever
  \<^verbatim>\<open>os.Open\<close>, \<^verbatim>\<open>engine.Signature\<close> and \<^verbatim>\<open>rsync.NewReceiver\<close>
  would do: they are not consulted.
\<close>

theorem stage_everything_staged:
  assumes "length entries = length paths"
    and "\<forall>(p, d) \<in> set (zip paths (map Digest entries)). \<not> isl (Provide env (stager e) p d)"
  shows "stage env e paths (map Some entries) = Return ([], [], None, None)
    \<and> stage (env\<lparr>Open := opn, EngineSignature := sigf, NewReceiver := rcv\<rparr>) e paths
          (map Some entries) = Return ([], [], None, None)"
proof -
  have "filter (\<lambda>(p, d). isl (Provide env (stager e) p d)) (zip paths (map Digest entries)) = []"
    using assms(2) by (auto simp: filter_empty_conv)
  then have "not_provided env (stager e) (zip paths (map Digest entries)) = []"
    and "not_provided (env\<lparr>Open := opn, EngineSignature := sigf, NewReceiver := rcv\<rparr>)
           (stager e) (zip paths (map Digest entries)) = []"
    by (simp_all add: not_provided_def)
  then show ?thesis
    by (simp add: stage_unfold [OF assms(1) refl])
qed

text \<open>
  C9. \<^verbatim>\<open>stage\<close> always returns as many signatures as paths. The signature at
  index \<open>i\<close> is the one computed from the base file of the \<open>i\<close>-th returned
  path, and the empty signature when that file cannot be opened or its signature cannot
  be computed. Such a failure never ends the operation: the only error \<^verbatim>\<open>stage\<close>
  returns is the wrapped error of \<^verbatim>\<open>rsync.NewReceiver\<close>, and without it the
  returned paths are all the paths that the stager cannot provide.
\<close>

theorem stage_one_signature_per_path:
  assumes "length entries = length paths"
  shows "\<exists>ps sigs receiver err.
      stage env e paths (map Some entries) = Return (ps, sigs, receiver, err)
    \<and> length sigs = length ps
    \<and> (\<forall>i < length ps.
          sigs ! i =
            (case Open env (Join env (root e) (ps ! i)) of
               Inl oerr \<Rightarrow> empty_Signature
             | Inr base \<Rightarrow>
                 (case EngineSignature env base 0 of
                    Inl serr \<Rightarrow> empty_Signature
                  | Inr signature \<Rightarrow> signature)))
    \<and> (case err of
         None \<Rightarrow> ps = not_provided env (stager e) (zip paths (map Digest entries))
       | Some werr \<Rightarrow>
           (\<exists>rerr sigs'. werr = Wrap rerr ''unable to create rsync receiver''
              \<and> NewReceiver env (root e)
                   (not_provided env (stager e) (zip paths (map Digest entries))) sigs'
                   (stager e) = Inl rerr))"
proof -
  let ?U = "not_provided env (stager e) (zip paths (map Digest entries))"
  let ?S = "map (base_signature env (root e)) ?U"
  show ?thesis
  proof (cases "?U = []")
    case True
    then show ?thesis by (simp add: stage_unfold [OF assms refl])
  next
    case False
    show ?thesis
    proof (cases "NewReceiver env (root e) ?U ?S (stager e)")
      case (Inl rerr)
      with False have "stage env e paths (map Some entries) =
          Return ([], [], None, Some (Wrap rerr ''unable to create rsync receiver''))"
        by (simp add: stage_unfold [OF assms refl])
      with Inl show ?thesis by auto
    next
      case (Inr receiver)
      with False have "stage env e paths (map Some entries) = Return (?U, ?S, Some receiver, None)"
        by (simp add: stage_unfold [OF assms refl])
      then show ?thesis by (simp add: base_signature_def)
    qed
  qed
qed

lemma ex_not_provided:
  "not_provided ex_stageEnv () (zip ex_paths (map Digest ex_entries)) = [''b.txt'', ''c.txt'']"
  by (simp add: not_provided_def ex_stageEnv_def ex_paths_def ex_entries_def)

lemma ex_stage:
  "stage ex_stageEnv ex_endpoint ex_paths (map Some ex_entries) =
     Return ([''b.txt'', ''c.txt''], [[(7, [9])], empty_Signature], Some 2, None)"
  by (simp add: stage_def ex_stageEnv_def ex_paths_def ex_entries_def ex_endpoint_def
      empty_Signature_def)

theorem stage_returns_unprovided_paths_witness:
  "length ex_entries = length ex_paths
   \<and> not_provided ex_stageEnv () (zip ex_paths (map Digest ex_entries)) = [''b.txt'', ''c.txt'']
   \<and> stage ex_stageEnv ex_endpoint ex_paths (map Some ex_entries) =
       Return ([''b.txt'', ''c.txt''], [[(7, [9])], empty_Signature], Some 2, None)"
proof -
  have l: "length ex_entries = length ex_paths"
    by (simp add: ex_entries_def ex_paths_def)
  have st: "stager ex_endpoint = ()"
    by simp
  from stage_returns_unprovided_paths [OF l, of ex_stageEnv ex_endpoint]
  show ?thesis using l ex_not_provided by (simp add: ex_stage)
qed

theorem stage_everything_staged_witness:
  "stage (ex_stageEnv\<lparr>Open := (\<lambda>name. Inl (New ''unused'')),
                       EngineSignature := (\<lambda>base blockSize. Inl (New ''unused'')),
                       NewReceiver := (\<lambda>rt ps sigs st. Inl (New ''unused''))\<rparr>)
      ex_endpoint [''a.txt''] [Some (Entry EntryKind_File False [1] [] [])] =
    Return ([], [], None, None)"
proof -
  have l: "length [Entry EntryKind_File False [1] [] []] = length [''a.txt'']"
    by simp
  have p: "\<forall>(p, d) \<in> set (zip [''a.txt''] (map Digest [Entry EntryKind_File False [1] [] []])).
      \<not> isl (Provide ex_stageEnv (stager ex_endpoint) p d)"
    by (simp add: ex_stageEnv_def)
  from stage_everything_staged [OF l p]
  show ?thesis by simp
qed

theorem stage_one_signature_per_path_witness:
  "length ex_entries = length ex_paths
   \<and> stage ex_stageEnv ex_endpoint ex_paths (map Some ex_entries) =
       Return ([''b.txt'', ''c.txt''], [[(7, [9])], empty_Signature], Some 2, None)
   \<and> Open ex_stageEnv (Join ex_stageEnv (root ex_endpoint) ''c.txt'') =
       Inl (New ''no such file or directory'')"
proof -
  have l: "length ex_entries = length ex_paths"
    by (simp add: ex_entries_def ex_paths_def)
  have c: "Open ex_stageEnv (Join ex_stageEnv (root ex_endpoint) ''c.txt'') =
       Inl (New ''no such file or directory'')"
    by (simp add: ex_stageEnv_def ex_endpoint_def)
  from stage_one_signature_per_path [OF l, of ex_stageEnv ex_endpoint] l c ex_stage
  show ?thesis by blast
qed

subsection \<open>Scan failures\<close>

lemma handleScan_fatal_iff:
  "isl (snd (handleScan e t scanReq)) \<longleftrightarrow>
     (\<exists>snapshot cache'. scanned t = Inr (snapshot, cache')
        \<and> (cacheSaved t \<noteq> None \<or> isl (marshalled t)))"
  by (auto simp: handleScan_def split: sum.splits option.splits prod.splits)

lemma scan_fatal_only_stored_error:
  "scan le outcome = Some ((snapshot, pe, Some ferr, False), le', spawned) \<Longrightarrow>
     \<exists>werr. cacheWriteError le = Some werr \<and> ferr = Wrap werr ''unable to save cache to disk''"
  by (auto simp: scan_def Let_def split: if_splits option.splits sum.splits)

text \<open>
  C2 (as amended). When \<^verbatim>\<open>sync.Scan\<close> fails, \<^verbatim>\<open>handleScan\<close> leaves
  the endpoint as it is and answers with try-again set and an empty delta, no error; if
  that response can be sent, the control loop goes on with the next request. A scan is
  fatal in \<^verbatim>\<open>handleScan\<close> exactly when the scanner succeeded and then saving the
  cache or marshalling the snapshot failed. In \<^verbatim>\<open>localEndpoint.scan\<close> a scanner
  error comes back with try-again set, and an error without try-again is always the
  wrapped stored cache-write error.
\<close>

theorem scan_failure_is_transient:
  assumes "decoded t = Inr request" and "Scan request = Some scanReq"
    and "scanned t = Inl err"
  shows "handleScan e t scanReq = (e, Inr \<lparr>TryAgain = True, SnapshotDelta = []\<rparr>)
    \<and> (encoded t = None \<longrightarrow>
         serveControl e (t # ts) =
           after [Sent (ScanResponse \<lparr>TryAgain = True, SnapshotDelta = []\<rparr>)] (serveControl e ts))
    \<and> (isl (snd (handleScan e t' scanReq')) \<longleftrightarrow>
         (\<exists>snapshot cache'. scanned t' = Inr (snapshot, cache')
            \<and> (cacheSaved t' \<noteq> None \<or> isl (marshalled t'))))
    \<and> (\<not> scanLock le \<and> cacheWriteError le = None \<longrightarrow>
         scan le (Inl err) = Some ((None, False, Some err, True), le, False))
    \<and> (scan le outcome = Some ((snapshot, pe, Some ferr, False), le', spawned) \<longrightarrow>
         (\<exists>werr. cacheWriteError le = Some werr
            \<and> ferr = Wrap werr ''unable to save cache to disk''))"
proof -
  have 1: "handleScan e t scanReq = (e, Inr \<lparr>TryAgain = True, SnapshotDelta = []\<rparr>)"
    using assms(3) by (simp add: handleScan_def)
  have 2: "encoded t = None \<longrightarrow>
         serveControl e (t # ts) =
           after [Sent (ScanResponse \<lparr>TryAgain = True, SnapshotDelta = []\<rparr>)] (serveControl e ts)"
    using assms(1,2) 1 by simp
  have 3: "\<not> scanLock le \<and> cacheWriteError le = None \<longrightarrow>
         scan le (Inl err) = Some ((None, False, Some err, True), le, False)"
    by (simp add: scan_def)
  show ?thesis
    using 1 2 3 handleScan_fatal_iff [of e t' scanReq'] scan_fatal_only_stored_error [of le outcome]
    by blast
qed

lemma ex_retry_then_success:
  "serveControl ex_served [ex_scan_fails_turn, ex_scan_succeeds_turn] =
     (ex_served\<lparr>endpoint_cache := ex_cache\<rparr>,
      [Sent (ScanResponse \<lparr>TryAgain = True, SnapshotDelta = []\<rparr>),
       Sent (ScanResponse \<lparr>TryAgain = False, SnapshotDelta = [DATA [10, 2]]\<rparr>)],
      None)"
  by (simp add: ex_scan_fails_turn_def ex_scan_succeeds_turn_def handleScan_def after_def)

theorem scan_failure_is_transient_witness:
  "decoded ex_scan_fails_turn =
     Inr \<lparr>Scan = Some \<lparr>BaseSnapshotSignature = empty_Signature\<rparr>, Stage = None,
          Transition = None\<rparr>
   \<and> scanned ex_scan_fails_turn = Inl (New ''open hello.txt: input/output error'')
   \<and> handleScan ex_served ex_scan_fails_turn \<lparr>BaseSnapshotSignature = empty_Signature\<rparr> =
       (ex_served, Inr \<lparr>TryAgain = True, SnapshotDelta = []\<rparr>)
   \<and> serveControl ex_served [ex_scan_fails_turn, ex_scan_succeeds_turn] =
       (ex_served\<lparr>endpoint_cache := ex_cache\<rparr>,
        [Sent (ScanResponse \<lparr>TryAgain = True, SnapshotDelta = []\<rparr>),
         Sent (ScanResponse \<lparr>TryAgain = False, SnapshotDelta = [DATA [10, 2]]\<rparr>)],
        None)"
proof -
  have d: "decoded ex_scan_fails_turn =
     Inr \<lparr>Scan = Some \<lparr>BaseSnapshotSignature = empty_Signature\<rparr>, Stage = None,
          Transition = None\<rparr>"
    by (simp add: ex_scan_fails_turn_def)
  have q: "Scan \<lparr>Scan = Some \<lparr>BaseSnapshotSignature = empty_Signature\<rparr>, Stage = None,
          Transition = None\<rparr> = Some \<lparr>BaseSnapshotSignature = empty_Signature\<rparr>"
    by simp
  have f: "scanned ex_scan_fails_turn = Inl (New ''open hello.txt: input/output error'')"
    by (simp add: ex_scan_fails_turn_def)
  from scan_failure_is_transient [OF d q f, of ex_served]
  have "handleScan ex_served ex_scan_fails_turn \<lparr>BaseSnapshotSignature = empty_Signature\<rparr> =
       (ex_served, Inr \<lparr>TryAgain = True, SnapshotDelta = []\<rparr>)"
    by blast
  then show ?thesis using d f ex_retry_then_success by blast
qed

text \<open>
  C2 as stated fails in its last part: in \<^verbatim>\<open>handleScan\<close> a scan whose cache was
  saved is fatal all the same when the snapshot cannot be marshalled, and the control
  loop returns.
\<close>

theorem scan_fatal_without_cache_error:
  "scanned ex_marshal_fails_turn = Inr (Some ex_snapshot, ex_cache)
   \<and> cacheSaved ex_marshal_fails_turn = None
   \<and> serveControl ex_served [ex_marshal_fails_turn] =
       (ex_served\<lparr>endpoint_cache := ex_cache\<rparr>, [],
        Some (Wrap (Wrap (New ''string field contains invalid UTF-8'')
                ''unable to marshal snapshot'') ''unable to perform scan''))"
  by (simp add: ex_marshal_fails_turn_def ex_scan_fails_turn_def ex_scan_succeeds_turn_def
      handleScan_def)

subsection \<open>Transitions\<close>

text \<open>
  C3 (as amended). For every transition request the endpoint runs the applier, then wipes
  the staging coordinator, then replies with the applied changes and the problems the
  applier returned, whatever they are and whatever \<^verbatim>\<open>wipe\<close> returned: the
  handler has no error result. The loop returns only if the response cannot be sent, and
  then the wipe has been done already. \<^verbatim>\<open>localEndpoint.transition\<close> likewise
  returns the results and problems with a nil error and the wiped stager.
\<close>

theorem transition_wipes_then_replies:
  assumes "decoded t = Inr request" and "Scan request = None" and "Stage request = None"
    and "Transition request = Some transitionReq"
    and "transitioned t = (changes, problems, coordinator1)"
    and "wiped t = (werr, coordinator2)"
  shows "handleTransition e t transitionReq =
      (e\<lparr>stagingCoordinator := coordinator2\<rparr>,
       [Applied (Transitions transitionReq), Wiped werr],
       \<lparr>Changes = changes, Problems = problems\<rparr>)
    \<and> serveControl e (t # ts) =
      (case encoded t of
         Some serr \<Rightarrow>
           (e\<lparr>stagingCoordinator := coordinator2\<rparr>,
            [Applied (Transitions transitionReq), Wiped werr],
            Some (Wrap serr ''unable to send transition response''))
       | None \<Rightarrow>
           after [Applied (Transitions transitionReq), Wiped werr,
                  Sent (TransitionResponse \<lparr>Changes = changes, Problems = problems\<rparr>)]
             (serveControl (e\<lparr>stagingCoordinator := coordinator2\<rparr>) ts))
    \<and> transition le transitions (results, problems, stager1) (werr, stager2) =
        ((results, problems, None), le\<lparr>stager := stager2\<rparr>)"
proof -
  have h: "handleTransition e t transitionReq =
      (e\<lparr>stagingCoordinator := coordinator2\<rparr>,
       [Applied (Transitions transitionReq), Wiped werr],
       \<lparr>Changes = changes, Problems = problems\<rparr>)"
    using assms(5,6) by (simp add: handleTransition_def)
  have "serveControl e (t # ts) =
      (case encoded t of
         Some serr \<Rightarrow>
           (e\<lparr>stagingCoordinator := coordinator2\<rparr>,
            [Applied (Transitions transitionReq), Wiped werr],
            Some (Wrap serr ''unable to send transition response''))
       | None \<Rightarrow>
           after [Applied (Transitions transitionReq), Wiped werr,
                  Sent (TransitionResponse \<lparr>Changes = changes, Problems = problems\<rparr>)]
             (serveControl (e\<lparr>stagingCoordinator := coordinator2\<rparr>) ts))"
    using assms(1-4) h by (simp split: option.splits)
  moreover have "transition le transitions (results, problems, stager1) (werr, stager2) =
        ((results, problems, None), le\<lparr>stager := stager2\<rparr>)"
    by (simp add: transition_def)
  ultimately show ?thesis using h by simp
qed

lemma ex_transition_effects:
  "serveControl ex_served [ex_transition_turn, ex_scan_fails_turn] =
     (ex_served,
      [Applied ex_changes, Wiped (Some (New ''unable to remove staging directory'')),
       Sent (TransitionResponse ex_transition_response),
       Sent (ScanResponse \<lparr>TryAgain = True, SnapshotDelta = []\<rparr>)],
      None)"
  by (simp add: ex_transition_turn_def ex_scan_fails_turn_def handleTransition_def
      handleScan_def after_def ex_served_def)

theorem transition_wipes_then_replies_witness:
  "decoded ex_transition_turn =
     Inr \<lparr>Scan = None, Stage = None, Transition = Some \<lparr>Transitions = ex_changes\<rparr>\<rparr>
   \<and> wiped ex_transition_turn = (Some (New ''unable to remove staging directory''), ())
   \<and> handleTransition ex_served ex_transition_turn \<lparr>Transitions = ex_changes\<rparr> =
       (ex_served,
        [Applied ex_changes, Wiped (Some (New ''unable to remove staging directory''))],
        ex_transition_response)
   \<and> serveControl ex_served [ex_transition_turn, ex_scan_fails_turn] =
     (ex_served,
      [Applied ex_changes, Wiped (Some (New ''unable to remove staging directory'')),
       Sent (TransitionResponse ex_transition_response),
       Sent (ScanResponse \<lparr>TryAgain = True, SnapshotDelta = []\<rparr>)],
      None)"
proof -
  let ?req = "\<lparr>Scan = None, Stage = None, Transition = Some \<lparr>Transitions = ex_changes\<rparr>\<rparr>"
  have d: "decoded ex_transition_turn = Inr ?req"
    by (simp add: ex_transition_turn_def ex_scan_fails_turn_def)
  have a: "transitioned ex_transition_turn =
      (Changes ex_transition_response, Problems ex_transition_response, ())"
    by (simp add: ex_transition_turn_def ex_scan_fails_turn_def)
  have w: "wiped ex_transition_turn = (Some (New ''unable to remove staging directory''), ())"
    by (simp add: ex_transition_turn_def ex_scan_fails_turn_def)
  have "Scan ?req = None" and "Stage ?req = None"
    and "Transition ?req = Some \<lparr>Transitions = ex_changes\<rparr>"
    by simp_all
  note t = transition_wipes_then_replies [OF d this a w, of ex_served]
  have h: "handleTransition ex_served ex_transition_turn \<lparr>Transitions = ex_changes\<rparr> =
       (ex_served,
        [Applied ex_changes, Wiped (Some (New ''unable to remove staging directory''))],
        ex_transition_response)"
    by (simp add: handleTransition_def a w)
  from t h d w ex_transition_effects show ?thesis by blast
qed

text \<open>
  C3 as stated fails in its order: the wipe is done inside \<^verbatim>\<open>handleTransition\<close>,
  before the response is handed to \<^verbatim>\<open>Encode\<close>; no wipe follows the reply.
\<close>

theorem transition_reply_follows_wipe:
  "fst (snd (serveControl ex_served [ex_transition_turn])) =
     [Applied ex_changes, Wiped (Some (New ''unable to remove staging directory'')),
      Sent (TransitionResponse ex_transition_response)]
   \<and> \<not> wipes_after_reply (fst (snd (serveControl ex_served [ex_transition_turn])))"
  by (simp add: ex_transition_turn_def ex_scan_fails_turn_def handleTransition_def
      after_def)

subsection \<open>Endpoint initialization\<close>

lemma newLocalEndpoint_cache:
  "newLocalEndpoint env session version root0 configuration alpha = Inr (e, w) \<Longrightarrow>
     cache e = initial_cache (LoadAndUnmarshalProtobuf env (cachePath e)) (EnsureValid env)"
  by (auto simp: newLocalEndpoint_def initial_cache_def Let_def
      split: sum.splits option.splits)

lemma newLocalEndpoint_fails_iff:
  "isl (newLocalEndpoint env session version root0 configuration alpha) \<longleftrightarrow>
     isl (Normalize env root0) \<or> isl (pathForCache env session alpha)
       \<or> isl (newStager env session version alpha)"
  by (simp add: newLocalEndpoint_def Let_def split: sum.splits)

lemma ServeEndpoint_initialize_cache:
  "ServeEndpoint_initialize env decodedInit encodedResponse = Inr se \<Longrightarrow>
     endpoint_cache se =
       (case LoadAndUnmarshalProtobuf env (endpoint_cachePath se) of
          Inl err \<Rightarrow> empty_Cache
        | Inr loaded \<Rightarrow> loaded)"
  by (auto simp: ServeEndpoint_initialize_def Let_def
      split: sum.splits option.splits if_splits)

lemma ServeEndpoint_initialize_fails_same:
  "isl (ServeEndpoint_initialize (with_cache_file env load validate) decodedInit encodedResponse)
     \<longleftrightarrow> isl (ServeEndpoint_initialize env decodedInit encodedResponse)"
  by (simp add: ServeEndpoint_initialize_def with_cache_file_def Let_def
      split: sum.splits option.splits)

text \<open>
  What the two initializations do with the cache file. \<^verbatim>\<open>newLocalEndpoint\<close>
  starts with the loaded cache when it loads and validates, and with the empty cache
  otherwise; it fails exactly when normalizing the root, computing the cache path or
  creating the stager fails. \<^verbatim>\<open>ServeEndpoint\<close> starts with whatever loads, and
  with the empty cache when nothing loads; whether it fails does not depend on what
  loading and validating the cache do.
\<close>

lemma cache_file_at_initialization:
  "(\<forall>e w. newLocalEndpoint env session version root0 configuration alpha = Inr (e, w) \<longrightarrow>
       cache e =
         (case LoadAndUnmarshalProtobuf env (cachePath e) of
            Inl err \<Rightarrow> empty_Cache
          | Inr loaded \<Rightarrow> if EnsureValid env loaded = None then loaded else empty_Cache))
   \<and> (isl (newLocalEndpoint env session version root0 configuration alpha) \<longleftrightarrow>
        isl (Normalize env root0) \<or> isl (pathForCache env session alpha)
          \<or> isl (newStager env session version alpha))
   \<and> (\<forall>se. ServeEndpoint_initialize env decodedInit encodedResponse = Inr se \<longrightarrow>
        endpoint_cache se =
          (case LoadAndUnmarshalProtobuf env (endpoint_cachePath se) of
             Inl err \<Rightarrow> empty_Cache
           | Inr loaded \<Rightarrow> loaded))
   \<and> (isl (ServeEndpoint_initialize (with_cache_file env load validate) decodedInit
              encodedResponse)
        \<longleftrightarrow> isl (ServeEndpoint_initialize env decodedInit encodedResponse))"
  using newLocalEndpoint_cache [of env session version root0 configuration alpha]
    newLocalEndpoint_fails_iff [of env session version root0 configuration alpha]
    ServeEndpoint_initialize_cache [of env decodedInit encodedResponse]
    ServeEndpoint_initialize_fails_same [of env load validate decodedInit encodedResponse]
  by (simp add: initial_cache_def)

lemma ex_invalid_cache_fails_validation:
  "Cache_EnsureValid 20 ex_invalid_cache = Some (New ''invalid cache entry'')"
  by (simp add: Cache_EnsureValid_def ex_invalid_cache_def)

lemma ex_newLocalEndpoint:
  "newLocalEndpoint ex_initEnv ''s1'' 1 ''/home/user/project'' ex_configuration True =
     Inr (ex_endpoint, \<lparr>watch_root = ''/home/user/project'', watch_mode = WatchMode_WatchPortable,
                        watch_interval = 10\<rparr>)"
  by (simp add: newLocalEndpoint_def ex_initEnv_def ex_configuration_def ex_endpoint_def
      ex_invalid_cache_fails_validation)

text \<open>
  C6. The claim holds for \<^verbatim>\<open>newLocalEndpoint\<close> and is broken by
  \<^verbatim>\<open>ServeEndpoint\<close>. Take a cache file whose only entry has the empty path as
  its key, which the specification's validity rejects. \<^verbatim>\<open>newLocalEndpoint\<close>
  starts with the empty cache; \<^verbatim>\<open>ServeEndpoint\<close>, which never calls
  \<^verbatim>\<open>EnsureValid\<close>, starts with the invalid cache. Neither initialization fails.
\<close>

theorem ServeEndpoint_keeps_invalid_cache:
  "Cache_EnsureValid 20 ex_invalid_cache \<noteq> None
   \<and> ex_invalid_cache \<noteq> empty_Cache
   \<and> LoadAndUnmarshalProtobuf ex_initEnv ''/home/user/.mutagen/caches/s1_beta'' =
       Inr ex_invalid_cache
   \<and> EnsureValid ex_initEnv = Cache_EnsureValid 20
   \<and> ServeEndpoint_initialize ex_initEnv (Inr ex_init) None =
       Inr \<lparr>endpoint_root = ''/home/user/project'', endpoint_ignores = [''*.o''],
            endpoint_cachePath = ''/home/user/.mutagen/caches/s1_beta'',
            endpoint_cache = ex_invalid_cache, stagingCoordinator = ()\<rparr>
   \<and> newLocalEndpoint ex_initEnv ''s1'' 1 ''/home/user/project'' ex_configuration False =
       Inr (ex_endpoint\<lparr>cachePath := ''/home/user/.mutagen/caches/s1_beta''\<rparr>,
            \<lparr>watch_root = ''/home/user/project'', watch_mode = WatchMode_WatchPortable,
             watch_interval = 10\<rparr>)
   \<and> cache (ex_endpoint\<lparr>cachePath := ''/home/user/.mutagen/caches/s1_beta''\<rparr>) = empty_Cache"
proof -
  have 1: "Cache_EnsureValid 20 ex_invalid_cache \<noteq> None"
    by (simp add: ex_invalid_cache_fails_validation)
  have 2: "ex_invalid_cache \<noteq> empty_Cache"
    by (simp add: ex_invalid_cache_def empty_Cache_def)
  have 3: "LoadAndUnmarshalProtobuf ex_initEnv ''/home/user/.mutagen/caches/s1_beta'' =
       Inr ex_invalid_cache"
    and 4: "EnsureValid ex_initEnv = Cache_EnsureValid 20"
    by (simp_all add: ex_initEnv_def)
  have 5: "ServeEndpoint_initialize ex_initEnv (Inr ex_init) None =
       Inr \<lparr>endpoint_root = ''/home/user/project'', endpoint_ignores = [''*.o''],
            endpoint_cachePath = ''/home/user/.mutagen/caches/s1_beta'',
            endpoint_cache = ex_invalid_cache, stagingCoordinator = ()\<rparr>"
    by (simp add: ServeEndpoint_initialize_def ex_initEnv_def ex_init_def)
  have 6: "newLocalEndpoint ex_initEnv ''s1'' 1 ''/home/user/project'' ex_configuration False =
       Inr (ex_endpoint\<lparr>cachePath := ''/home/user/.mutagen/caches/s1_beta''\<rparr>,
            \<lparr>watch_root = ''/home/user/project'', watch_mode = WatchMode_WatchPortable,
             watch_interval = 10\<rparr>)"
    by (simp add: newLocalEndpoint_def ex_initEnv_def ex_configuration_def ex_endpoint_def
        ex_invalid_cache_fails_validation)
  have 7: "cache (ex_endpoint\<lparr>cachePath := ''/home/user/.mutagen/caches/s1_beta''\<rparr>) =
      empty_Cache"
    by (simp add: ex_endpoint_def)
  from 1 2 3 4 5 6 7 show ?thesis by blast
qed

subsection \<open>Dispatch to the Docker handler\<close>

text \<open>
  C10 (as amended). Given a URL, \<^verbatim>\<open>Connect\<close> panics if and only if the URL's
  kind is not synchronization or its protocol is not Docker. For a synchronization URL
  with the Docker protocol it returns one of: the error of \<^verbatim>\<open>docker.NewTransport\<close>,
  wrapped; the error of \<^verbatim>\<open>agent.Dial\<close>, wrapped; the endpoint client that
  \<^verbatim>\<open>remote.NewEndpointClient\<close> returned; or the error that
  \<^verbatim>\<open>remote.NewEndpointClient\<close> returned, as it is.
\<close>

theorem Connect_panics_iff:
  "((\<exists>msg. Connect env (Some url) prompter session version configuration alpha = Panic msg) \<longleftrightarrow>
      (URL_Kind url \<noteq> Kind_Synchronization \<or> URL_Protocol url \<noteq> Protocol_Docker))
   \<and> (URL_Kind url = Kind_Synchronization \<and> URL_Protocol url = Protocol_Docker \<longrightarrow>
        (\<exists>err. NewTransport env (Host url) (User url) (Environment url) prompter = Inl err
           \<and> Connect env (Some url) prompter session version configuration alpha =
                 Return (Inl (Wrap err ''unable to create Docker transport'')))
      \<or> (\<exists>transport err.
             NewTransport env (Host url) (User url) (Environment url) prompter = Inr transport
           \<and> Dial env transport ModeEndpoint prompter = Inl err
           \<and> Connect env (Some url) prompter session version configuration alpha =
                 Return (Inl (Wrap err ''unable to dial agent endpoint'')))
      \<or> (\<exists>transport connection client.
             NewTransport env (Host url) (User url) (Environment url) prompter = Inr transport
           \<and> Dial env transport ModeEndpoint prompter = Inr connection
           \<and> NewEndpointClient env connection (URL_Path url) session version configuration
                 alpha = Inr client
           \<and> Connect env (Some url) prompter session version configuration alpha =
                 Return (Inr client))
      \<or> (\<exists>transport connection err.
             NewTransport env (Host url) (User url) (Environment url) prompter = Inr transport
           \<and> Dial env transport ModeEndpoint prompter = Inr connection
           \<and> NewEndpointClient env connection (URL_Path url) session version configuration
                 alpha = Inl err
           \<and> Connect env (Some url) prompter session version configuration alpha =
                 Return (Inl err)))"
proof -
  let ?C = "Connect env (Some url) prompter session version configuration alpha"
  have p: "(\<exists>msg. ?C = Panic msg) \<longleftrightarrow>
      (URL_Kind url \<noteq> Kind_Synchronization \<or> URL_Protocol url \<noteq> Protocol_Docker)"
    by (auto simp: Connect_def split: sum.splits)
  have r: ?thesis if k: "URL_Kind url = Kind_Synchronization"
    and d: "URL_Protocol url = Protocol_Docker"
  proof (cases "NewTransport env (Host url) (User url) (Environment url) prompter")
    case (Inl err)
    with k d have "?C = Return (Inl (Wrap err ''unable to create Docker transport''))"
      by (simp add: Connect_def)
    with p Inl show ?thesis by blast
  next
    case transport: (Inr transport)
    show ?thesis
    proof (cases "Dial env transport ModeEndpoint prompter")
      case (Inl err)
      with k d transport have "?C = Return (Inl (Wrap err ''unable to dial agent endpoint''))"
        by (simp add: Connect_def)
      with p transport Inl show ?thesis by blast
    next
      case connection: (Inr connection)
      show ?thesis
      proof (cases "NewEndpointClient env connection (URL_Path url) session version
          configuration alpha")
        case (Inl err)
        with k d transport connection have "?C = Return (Inl err)"
          by (simp add: Connect_def)
        with p transport connection Inl show ?thesis by blast
      next
        case (Inr client)
        with k d transport connection have "?C = Return (Inr client)"
          by (simp add: Connect_def)
        with p transport connection Inr show ?thesis by blast
      qed
    qed
  qed
  show ?thesis
  proof (cases "URL_Kind url = Kind_Synchronization \<and> URL_Protocol url = Protocol_Docker")
    case True
    then show ?thesis using r by blast
  next
    case False
    then show ?thesis using p by blast
  qed
qed

lemma ex_Connect:
  "Connect ex_dockerEnv (Some ex_url) [] ''s1'' 1 ex_configuration True =
     Return (Inr ''docker:web#agent:/srv'')"
  by (simp add: Connect_def ex_dockerEnv_def ex_url_def)

theorem Connect_panics_iff_witness:
  "URL_Kind ex_url = Kind_Synchronization \<and> URL_Protocol ex_url = Protocol_Docker
   \<and> Connect ex_dockerEnv (Some ex_url) [] ''s1'' 1 ex_configuration True =
       Return (Inr ''docker:web#agent:/srv'')
   \<and> Connect ex_dockerEnv (Some (ex_url\<lparr>URL_Protocol := Protocol_SSH\<rparr>)) [] ''s1'' 1 ex_configuration
        True = Panic ''non-Docker URL dispatched to Docker protocol handler''
   \<and> Connect ex_dockerEnv (Some (ex_url\<lparr>URL_Kind := Kind_Forwarding\<rparr>)) [] ''s1'' 1 ex_configuration
        True = Panic ''non-synchronization URL dispatched to synchronization protocol handler''"
proof -
  have k: "URL_Kind ex_url = Kind_Synchronization" and p: "URL_Protocol ex_url = Protocol_Docker"
    by (simp_all add: ex_url_def)
  have 1: "Connect ex_dockerEnv (Some (ex_url\<lparr>URL_Protocol := Protocol_SSH\<rparr>)) [] ''s1'' 1
      ex_configuration True = Panic ''non-Docker URL dispatched to Docker protocol handler''"
    by (simp add: Connect_def ex_url_def)
  have 2: "Connect ex_dockerEnv (Some (ex_url\<lparr>URL_Kind := Kind_Forwarding\<rparr>)) [] ''s1'' 1
      ex_configuration True =
        Panic ''non-synchronization URL dispatched to synchronization protocol handler''"
    by (simp add: Connect_def ex_url_def)
  from Connect_panics_iff [of ex_dockerEnv ex_url "[]" "''s1''" 1 ex_configuration True]
    k p 1 2 ex_Connect
  show ?thesis by blast
qed

text \<open>
  C10 as stated fails in its last part: when \<^verbatim>\<open>remote.NewEndpointClient\<close>
  fails, \<^verbatim>\<open>Connect\<close> returns that error without wrapping it.
\<close>

theorem Connect_returns_unwrapped_error:
  "URL_Kind ex_url = Kind_Synchronization \<and> URL_Protocol ex_url = Protocol_Docker
   \<and> Connect ex_failing_client_dockerEnv (Some ex_url) [] ''s1'' 1 ex_configuration True =
       Return (Inl (New ''remote error: unsupported session version''))
   \<and> \<not> wrapped (New ''remote error: unsupported session version'')"
  by (simp add: Connect_def ex_failing_client_dockerEnv_def ex_dockerEnv_def ex_url_def)

subsection \<open>Registration of the Docker handler\<close>

text \<open>
  C7 (as amended). The Docker protocol handler adds itself to the global protocol-handler
  registry: the \<^verbatim>\<open>init\<close> function of its package stores the handler under
  \<^verbatim>\<open>Protocol_Docker\<close>, replacing whatever the registry held for that protocol,
  and leaves the handlers of all other protocols as they were.
\<close>

theorem init_registers_docker_handler:
  "init env ProtocolHandlers Protocol_Docker = Some (Connect env)
   \<and> dom (init env ProtocolHandlers) = insert Protocol_Docker (dom ProtocolHandlers)
   \<and> (\<forall>p. p \<noteq> Protocol_Docker \<longrightarrow> init env ProtocolHandlers p = ProtocolHandlers p)"
  by (simp add: init_def)

theorem init_registers_docker_handler_witness:
  "Protocol_SSH \<noteq> Protocol_Docker \<and> Protocol_Local \<noteq> Protocol_Docker
   \<and> ex_registry Protocol_Docker = Some ex_other_handler
   \<and> init ex_dockerEnv ex_registry Protocol_Docker = Some (Connect ex_dockerEnv)
   \<and> init ex_dockerEnv ex_registry Protocol_SSH = Some ex_other_handler
   \<and> init ex_dockerEnv ex_registry Protocol_Local = None
   \<and> dom (init ex_dockerEnv ex_registry) = {Protocol_SSH, Protocol_Docker}"
proof -
  have d: "Protocol_SSH \<noteq> Protocol_Docker" "Protocol_Local \<noteq> Protocol_Docker"
    by simp_all
  have r: "ex_registry Protocol_Docker = Some ex_other_handler"
    "ex_registry Protocol_SSH = Some ex_other_handler" "ex_registry Protocol_Local = None"
    "dom ex_registry = {Protocol_SSH, Protocol_Docker}"
    by (auto simp: ex_registry_def)
  note t = init_registers_docker_handler [of ex_dockerEnv ex_registry]
  from t have 1: "init ex_dockerEnv ex_registry Protocol_Docker = Some (Connect ex_dockerEnv)"
    by blast
  from t d r have 2: "init ex_dockerEnv ex_registry Protocol_SSH = Some ex_other_handler"
    and 3: "init ex_dockerEnv ex_registry Protocol_Local = None"
    by simp_all
  from t r have 4: "dom (init ex_dockerEnv ex_registry) = {Protocol_SSH, Protocol_Docker}"
    by auto
  from d r 1 2 3 4 show ?thesis by blast
qed

text \<open>
  C7 as stated fails: run on the empty registry, the package's \<^verbatim>\<open>init\<close>
  leaves a registry that holds the Docker handler, and that handler connects.
\<close>

theorem docker_handler_registers_itself:
  "dom (init ex_dockerEnv Map.empty) = {Protocol_Docker}
   \<and> (case init ex_dockerEnv Map.empty Protocol_Docker of
        None \<Rightarrow> False
      | Some handler \<Rightarrow>
          handler (Some ex_url) [] ''s1'' 1 ex_configuration True =
            Return (Inr ''docker:web#agent:/srv''))"
  using ex_Connect by (simp add: init_def)

end
